theory Spec2Isabelle
  imports
    Main
    "HOL-Library.Word"
    "HOL-Library.Product_Lexorder"
    "HOL-Library.Multiset"
begin

section \<open>Shared data: JSON values, exceptions, log records\<close>

text \<open>
  \<open>web::json::value\<close>: the settings, the request bodies and the resource payloads are
  dynamic JSON values. An object is kept as its list of fields.
\<close>

datatype json =
    JNull
  | JBool bool
  | JNumber int
  | JString string
  | JArray "json list"
  | JObject "(string \<times> json) list"

fun is_object :: "json \<Rightarrow> bool" where
  "is_object (JObject _) = True"
| "is_object _ = False"

text \<open>The exception classes that the handlers of \<open>main\<close> tell apart.\<close>

datatype cpp_exception =
    json_exception string
  | http_exception
  | system_error
  | runtime_error
  | std_exception
  | unknown_exception

datatype severity = info | warning | error | severe

type_synonym log = "(severity \<times> string) list"

text \<open>
  Modelled from the spec: \<open>nmos::api_version\<close> is declared in a header that is not among
  the sources. The spec writes versions as \<open>v1.0\<close>, \<open>v1.2\<close>, \<open>v1.3\<close>: a major and a minor
  number, ordered first by major, then by minor.
\<close>

type_synonym api_version = "nat \<times> nat"

section \<open>System API (system\_api.cpp)\<close>

datatype resource_type =
  node | device | source | flow | sender | receiver | subscription | grain | global

record resource =
  version :: api_version
  type :: resource_type
  data :: json
  never_expire :: bool

type_synonym settings = "(string \<times> json) list"

record registry_model =
  model_settings :: settings
  system_global_resource :: resource

datatype status_code = OK | Created | BadRequest | NotFound | InternalError

fun status_value :: "status_code \<Rightarrow> nat" where
  "status_value OK = 200"
| "status_value Created = 201"
| "status_value BadRequest = 400"
| "status_value NotFound = 404"
| "status_value InternalError = 500"

text \<open>What a handler leaves behind: a reply (status and optional body) or an exception.\<close>

datatype outcome = Replied status_code "json option" | Thrown cpp_exception

text \<open>
  The GET handler of \<open>/global/?\<close>. \<open>resource::has_data\<close> is declared in a header that is
  not among the sources, so it is a parameter. The handler only reads the model; it
  returns what it logs and its reply.
\<close>

definition get_global :: "(resource \<Rightarrow> bool) \<Rightarrow> registry_model \<Rightarrow> log \<times> outcome" where
  "get_global has_data model =
     (if has_data (system_global_resource model)
      then ([], Replied OK (Some (data (system_global_resource model))))
      else ([(error, ''System global resource not configured!'')], Replied InternalError None))"

text \<open>
  Modelled from the spec: the accessor \<open>nmos::fields::allow_invalid_resources\<close> is
  declared in a header that is not among the sources. The setting is set when the settings
  object holds the boolean \<open>true\<close> under this name, and not set when the field is absent;
  a value of another kind is a JSON error.
\<close>

definition allow_invalid_resources :: "settings \<Rightarrow> cpp_exception + bool" where
  "allow_invalid_resources s =
     (case map_of s ''allow_invalid_resources'' of
        None \<Rightarrow> Inr False
      | Some (JBool b) \<Rightarrow> Inr b
      | Some _ \<Rightarrow> Inl (json_exception ''not a boolean''))"

text \<open>
  The PUT handler of \<open>/global/?\<close>, from the continuation that receives the extracted
  body. The validator belongs to the JSON schema library: \<open>validate body version\<close> is
  \<open>None\<close> when the body conforms to the system global schema of that version and
  \<open>Some what\<close> when \<open>validator.validate\<close> throws a \<open>json_exception\<close> with that text.
  The result is the model after the call, the log lines written and the outcome.
\<close>

definition put_global ::
  "(json \<Rightarrow> api_version \<Rightarrow> string option) \<Rightarrow> registry_model \<Rightarrow> api_version \<Rightarrow> json
     \<Rightarrow> registry_model \<times> log \<times> outcome" where
  "put_global validate model ver body =
     (let stored = model\<lparr>system_global_resource :=
                     \<lparr>version = (1, 0), type = global, data = body, never_expire = True\<rparr>\<rparr>
      in case allow_invalid_resources (model_settings model) of
           Inl e \<Rightarrow> (model, [], Thrown e)
         | Inr False \<Rightarrow>
             (case validate body ver of
                Some what \<Rightarrow> (model, [], Thrown (json_exception what))
              | None \<Rightarrow> (stored, [], Replied Created (Some body)))
         | Inr True \<Rightarrow>
             (case validate body ver of
                Some what \<Rightarrow>
                  (stored, [(warning, ''JSON error: '' @ what)], Replied Created (Some body))
              | None \<Rightarrow> (stored, [], Replied Created (Some body))))"

section \<open>The node executable (nmos-cpp-node/main.cpp)\<close>

definition has_field :: "settings \<Rightarrow> string \<Rightarrow> bool" where
  "has_field s k = (map_of s k \<noteq> None)"

text \<open>
  Modelled from the spec: \<open>web::json::insert\<close> is declared in a header that is not among
  the sources. As the comments of \<open>main\<close> say of each call (``if the setting was
  omitted''), it adds the field only when the object has no field of that name.
\<close>

definition json_insert :: "settings \<Rightarrow> string \<times> json \<Rightarrow> settings" where
  "json_insert s f = (if has_field s (fst f) then s else s @ [f])"

text \<open>
  What \<open>main\<close> takes from outside: the JSON parser of the library applied to the text of
  the argument and to the file of that name (\<open>None\<close> when the error code is set), the
  generated seed id, the initial logging level, the interface addresses of the host, and
  the rest of the \<open>try\<close> block after the settings are prepared (setting up the APIs,
  serving until the termination signal): \<open>None\<close> when it reaches its end, \<open>Some e\<close>
  when it throws \<open>e\<close>.
\<close>

record main_env =
  parse_argument :: "string \<Rightarrow> json option"
  parse_file :: "string \<Rightarrow> json option"
  make_id :: string
  level :: int
  interface_addresses :: "string list"
  run :: "settings \<Rightarrow> cpp_exception option"

text \<open>
  Lines 56 to 70: the settings from the command line. \<open>argv\<close> holds the program name
  first. \<open>None\<close> is the branch that logs ``Bad command-line settings'' and returns -1.
  Without an argument the settings start with no field.
\<close>

definition command_line_settings :: "main_env \<Rightarrow> string list \<Rightarrow> settings option" where
  "command_line_settings env argv =
     (if length argv > 1 then
        (let parsed = (case parse_argument env (argv ! 1) of
                         None \<Rightarrow> parse_file env (argv ! 1)
                       | Some v \<Rightarrow> Some v)
         in case parsed of
              None \<Rightarrow> None
            | Some (JObject members) \<Rightarrow> Some members
            | Some _ \<Rightarrow> None)
      else Some [])"

text \<open>
  Lines 72 to 101: the run-time default settings. Modelled from the spec: the typed
  accessors of \<open>nmos::fields\<close> are declared in a header that is not among the sources;
  they read the named field and fail with a JSON error on a value of the wrong kind.
\<close>

definition insert_http_port_defaults :: "settings \<Rightarrow> cpp_exception + settings" where
  "insert_http_port_defaults s =
     (if has_field s ''http_port'' then
        (case map_of s ''http_port'' of
           Some (JNumber http_port) \<Rightarrow>
             Inr (json_insert (json_insert (json_insert (json_insert (json_insert s
               (''registration_port'', JNumber http_port))
               (''node_port'', JNumber http_port))
               (''connection_port'', JNumber http_port))
               (''settings_port'', JNumber http_port))
               (''logging_port'', JNumber http_port))
         | _ \<Rightarrow> Inl (json_exception ''not a number''))
      else Inr s)"

definition insert_logging_level :: "main_env \<Rightarrow> settings \<Rightarrow> cpp_exception + settings" where
  "insert_logging_level env s0 =
     (let s1 = json_insert s0 (''seed_id'', JString (make_id env));
          s2 = json_insert s1 (''logging_level'', JNumber (level env))
      in case map_of s2 ''logging_level'' of
           Some (JNumber l) \<Rightarrow> Inr s2
         | _ \<Rightarrow> Inl (json_exception ''not a number''))"

definition insert_host_addresses :: "main_env \<Rightarrow> settings \<Rightarrow> settings" where
  "insert_host_addresses env s =
     (if interface_addresses env \<noteq> []
      then json_insert s (''host_addresses'', JArray (map JString (interface_addresses env)))
      else s)"

definition insert_host_address :: "settings \<Rightarrow> cpp_exception + settings" where
  "insert_host_address s =
     (if has_field s ''host_addresses'' then
        (case map_of s ''host_addresses'' of
           Some (JArray (a # as)) \<Rightarrow> Inr (json_insert s (''host_address'', a))
         | _ \<Rightarrow> Inl (json_exception ''not an array with a first element''))
      else Inr s)"

definition prepare_settings :: "main_env \<Rightarrow> settings \<Rightarrow> cpp_exception + settings" where
  "prepare_settings env s0 =
     (case insert_logging_level env s0 of
        Inl e \<Rightarrow> Inl e
      | Inr s2 \<Rightarrow>
          (case insert_host_address (insert_host_addresses env s2) of
             Inl e \<Rightarrow> Inl e
           | Inr s4 \<Rightarrow> insert_http_port_defaults s4))"

text \<open>
  The handlers after the \<open>try\<close> block: each logs the exception and falls through to the
  last lines of \<open>main\<close>.
\<close>

fun catch_log :: "cpp_exception \<Rightarrow> severity \<times> string" where
  "catch_log (json_exception what) = (error, ''JSON error: '' @ what)"
| "catch_log http_exception = (error, ''HTTP error: '')"
| "catch_log system_error = (error, ''System error: '')"
| "catch_log runtime_error = (error, ''Implementation error: '')"
| "catch_log std_exception = (error, ''Unexpected exception: '')"
| "catch_log unknown_exception = (severe, ''Unexpected unknown exception'')"

text \<open>\<open>main\<close>: the log lines written and the value returned, the exit code.\<close>

definition main :: "main_env \<Rightarrow> string list \<Rightarrow> log \<times> int" where
  "main env argv =
     (case command_line_settings env argv of
        None \<Rightarrow>
          ([(info, ''Starting nmos-cpp node''), (severe, ''Bad command-line settings'')], - 1)
      | Some s0 \<Rightarrow>
          (case prepare_settings env s0 of
             Inl e \<Rightarrow>
               ([(info, ''Starting nmos-cpp node''), catch_log e,
                 (info, ''Stopping nmos-cpp node'')], 0)
           | Inr s \<Rightarrow>
               (case run env s of
                  Some e \<Rightarrow>
                    ([(info, ''Starting nmos-cpp node''), catch_log e,
                      (info, ''Stopping nmos-cpp node'')], 0)
                | None \<Rightarrow>
                    ([(info, ''Starting nmos-cpp node''), (info, ''Closing connections''),
                      (info, ''Stopping nmos-cpp node'')], 0))))"

text \<open>
  Two environments for concrete runs: one in which nothing parses, the host has no
  interface address and the node runs to its end, and one in which the node throws a
  \<open>std::runtime_error\<close> while it runs.
\<close>

definition example_env :: main_env where
  "example_env =
     \<lparr>parse_argument = (\<lambda>t. None), parse_file = (\<lambda>t. None), make_id = ''id'', level = 0,
      interface_addresses = [], run = (\<lambda>s. None)\<rparr>"

definition faulty_env :: main_env where
  "faulty_env = example_env\<lparr>run := (\<lambda>s. Some runtime_error)\<rparr>"

section \<open>Text of numbers: the stream operators of the standard library\<close>

text \<open>
  \<open>ostringstreamed\<close> and \<open>istringstreamed\<close> (mdns.cpp, lines 82 to 92) write a value to
  and read it from a string stream. For the number types used here that is the decimal
  text of the standard library: \<open>operator<<\<close> writes the digits, with a minus sign
  before a negative number; \<open>operator>>\<close> skips leading white space, reads an optional
  sign and the longest run of digits, stores zero when there is no digit, and stores the
  nearest bound of \<open>int\<close> when the number does not fit. At the end of the input before
  any character is read, the result keeps the default value it was initialised with.
\<close>

definition digit_char :: "nat \<Rightarrow> char" where
  "digit_char n = ''0123456789'' ! n"

definition is_digit :: "char \<Rightarrow> bool" where
  "is_digit c = (c \<in> set ''0123456789'')"

definition digit_value :: "char \<Rightarrow> nat" where
  "digit_value c = length (takeWhile (\<lambda>d. d \<noteq> c) ''0123456789'')"

definition is_space :: "char \<Rightarrow> bool" where
  "is_space c = (c \<in> {CHR '' '', CHR 0x09, CHR 0x0A, CHR 0x0B, CHR 0x0C, CHR 0x0D})"

fun digits :: "nat \<Rightarrow> string" where
  "digits n = (if n < 10 then [digit_char n] else digits (n div 10) @ [digit_char (n mod 10)])"

declare digits.simps [simp del]

definition digits_value :: "string \<Rightarrow> nat" where
  "digits_value ds = foldl (\<lambda>acc c. 10 * acc + digit_value c) 0 ds"

definition INT_MIN :: int where "INT_MIN = - (2 ^ 31)"

definition INT_MAX :: int where "INT_MAX = 2 ^ 31 - 1"

definition ostringstreamed_int :: "int \<Rightarrow> string" where
  "ostringstreamed_int v = (if v < 0 then CHR ''-'' # digits (nat (- v)) else digits (nat v))"

definition istringstreamed_int :: "string \<Rightarrow> int \<Rightarrow> int" where
  "istringstreamed_int text default_value =
     (case dropWhile is_space text of
        [] \<Rightarrow> default_value
      | c # rest \<Rightarrow>
          (let negative = (c = CHR ''-'');
               unsigned = (if c = CHR ''-'' \<or> c = CHR ''+'' then rest else c # rest);
               ds = takeWhile is_digit unsigned
           in if ds = [] then 0
              else max INT_MIN (min INT_MAX
                     (if negative then - int (digits_value ds) else int (digits_value ds)))))"

text \<open>
  \<open>boost::algorithm::join\<close> and \<open>boost::algorithm::split\<close> (without token compression):
  splitting yields one token more than there are separators, so the empty string yields
  one empty token.
\<close>

fun boost_join :: "string list \<Rightarrow> string \<Rightarrow> string" where
  "boost_join [] sep = []"
| "boost_join [x] sep = x"
| "boost_join (x # y # ys) sep = x @ sep @ boost_join (y # ys) sep"

fun boost_split :: "(char \<Rightarrow> bool) \<Rightarrow> string \<Rightarrow> string list" where
  "boost_split is_sep [] = [[]]"
| "boost_split is_sep (c # cs) =
     (if is_sep c then [] # boost_split is_sep cs
      else (case boost_split is_sep cs of
              [] \<Rightarrow> [[c]]
            | tok # toks \<Rightarrow> (c # tok) # toks))"

section \<open>DNS-SD text records (mdns.cpp)\<close>

type_synonym service_type = string
type_synonym service_protocol = string
type_synonym service_priority = int
type_synonym structured_txt_records = "(string \<times> string) list"

text \<open>
  Modelled from the spec: the service types and the protocol are constants of a header
  that is not among the sources. The spec names the advertised service types
  \<open>_nmos-node._tcp\<close>, \<open>_nmos-register._tcp\<close> (v1.3+), \<open>_nmos-registration._tcp\<close>
  (up to v1.2) and \<open>_nmos-query._tcp\<close>, and the protocol \<open>http\<close>. In
  \<open>register_service\<close> the constant \<open>service_types::registration\<close> is the type that is
  advertised beside the literal \<open>_nmos-register._tcp\<close>, so it is the older name.
\<close>

definition service_types_node :: service_type where
  "service_types_node = ''_nmos-node._tcp''"

definition service_types_query :: service_type where
  "service_types_query = ''_nmos-query._tcp''"

definition service_types_registration :: service_type where
  "service_types_registration = ''_nmos-registration._tcp''"

definition service_protocols_http :: service_protocol where
  "service_protocols_http = ''http''"

definition v1_3 :: api_version where
  "v1_3 = (1, 3)"

text \<open>
  Modelled from the spec: \<open>make_api_version\<close> and \<open>parse_api_version\<close> are declared in a
  header that is not among the sources. The spec writes a version as \<open>v\<close>, the major
  number, a dot and the minor number (\<open>v1.0\<close>, \<open>v1.3\<close>). A text that is not of this
  form is read as the version \<open>(0, 0)\<close>.
\<close>

definition make_api_version :: "api_version \<Rightarrow> string" where
  "make_api_version ver = ''v'' @ digits (fst ver) @ ''.'' @ digits (snd ver)"

definition parse_api_version :: "string \<Rightarrow> api_version" where
  "parse_api_version text =
     (case text of
        [] \<Rightarrow> (0, 0)
      | c # rest \<Rightarrow>
          (let major = takeWhile is_digit rest;
               after = dropWhile is_digit rest
           in if c = CHR ''v'' \<and> major \<noteq> [] \<and> after \<noteq> [] \<and> hd after = CHR ''.''
                 \<and> tl after \<noteq> [] \<and> list_all is_digit (tl after)
              then (digits_value major, digits_value (tl after))
              else (0, 0)))"

text \<open>
  Modelled from the spec: \<open>mdns::parse_txt_record\<close> is declared in a header that is not
  among the sources. As the comments at its calls say, it finds the record of the given
  key and parses its value, or returns the default.
\<close>

definition parse_txt_record ::
  "structured_txt_records \<Rightarrow> string \<Rightarrow> (string \<Rightarrow> 'a) \<Rightarrow> 'a \<Rightarrow> 'a" where
  "parse_txt_record records key parse_value default_value =
     (case map_of records key of
        Some text \<Rightarrow> parse_value text
      | None \<Rightarrow> default_value)"

definition make_api_proto_value :: "service_protocol \<Rightarrow> string" where
  "make_api_proto_value api_proto = api_proto"

definition parse_api_proto_value :: "string \<Rightarrow> service_protocol" where
  "parse_api_proto_value api_proto = api_proto"

definition parse_api_proto_record :: "structured_txt_records \<Rightarrow> service_protocol" where
  "parse_api_proto_record records =
     parse_txt_record records ''api_proto'' parse_api_proto_value service_protocols_http"

text \<open>A \<open>std::set\<close> is iterated in ascending order.\<close>

definition make_api_ver_value :: "api_version set \<Rightarrow> string" where
  "make_api_ver_value api_ver =
     boost_join (map make_api_version (sorted_list_of_set api_ver)) '',''"

definition parse_api_ver_value :: "string \<Rightarrow> api_version set" where
  "parse_api_ver_value api_ver =
     set (map parse_api_version (boost_split (\<lambda>c. CHR '','' = c) api_ver))"

text \<open>
  \<open>is04_versions::unspecified\<close>, the versions of an advertisement without an \<open>api_ver\<close>
  record, and \<open>service_priorities::no_priority\<close> are constants of a header that is not
  among the sources; the functions that use them take them as the parameters
  \<open>unspecified\<close> and \<open>no_priority\<close>.
\<close>

definition parse_api_ver_record ::
  "api_version set \<Rightarrow> structured_txt_records \<Rightarrow> api_version set" where
  "parse_api_ver_record unspecified records =
     parse_txt_record records ''api_ver'' parse_api_ver_value unspecified"

definition make_pri_value :: "service_priority \<Rightarrow> string" where
  "make_pri_value pri = ostringstreamed_int pri"

definition parse_pri_value :: "service_priority \<Rightarrow> string \<Rightarrow> service_priority" where
  "parse_pri_value no_priority pri = istringstreamed_int pri no_priority"

text \<open>
  The type \<open>api_resource_version\<close> is declared in a header that is not among the sources;
  it is taken as an unsigned integer of any width \<open>'a\<close>. \<open>make_ver_value\<close> converts it to
  \<open>int\<close> before writing it, and \<open>parse_ver_value\<close> reads an \<open>int\<close> and converts it back.
\<close>

definition make_ver_value :: "'a::len word \<Rightarrow> string" where
  "make_ver_value ver = ostringstreamed_int (sint (ucast ver :: 32 word))"

definition parse_ver_value :: "string \<Rightarrow> 'a::len word" where
  "parse_ver_value ver = word_of_int (istringstreamed_int ver 0)"

definition parse_pri_record :: "service_priority \<Rightarrow> structured_txt_records \<Rightarrow> service_priority" where
  "parse_pri_record no_priority records =
     parse_txt_record records ''pri'' (parse_pri_value no_priority) no_priority"

definition make_txt_records ::
  "service_type \<Rightarrow> service_priority \<Rightarrow> api_version set \<Rightarrow> service_protocol
     \<Rightarrow> structured_txt_records" where
  "make_txt_records service pri api_ver api_proto =
     (if service = service_types_node
      then [(''api_proto'', make_api_proto_value api_proto),
            (''api_ver'', make_api_ver_value api_ver)]
      else [(''api_proto'', make_api_proto_value api_proto),
            (''api_ver'', make_api_ver_value api_ver),
            (''pri'', make_pri_value pri)])"

record 'v api_resource_versions =
  self :: 'v
  sources :: 'v
  flows :: 'v
  devices :: 'v
  senders :: 'v
  receivers :: 'v

definition parse_ver_records :: "structured_txt_records \<Rightarrow> ('a::len word) api_resource_versions" where
  "parse_ver_records records =
     \<lparr>self = parse_txt_record records ''ver_slf'' parse_ver_value 0,
      sources = parse_txt_record records ''ver_src'' parse_ver_value 0,
      flows = parse_txt_record records ''ver_flw'' parse_ver_value 0,
      devices = parse_txt_record records ''ver_dvc'' parse_ver_value 0,
      senders = parse_txt_record records ''ver_snd'' parse_ver_value 0,
      receivers = parse_txt_record records ''ver_rcv'' parse_ver_value 0\<rparr>"

definition make_ver_records :: "('a::len word) api_resource_versions \<Rightarrow> structured_txt_records" where
  "make_ver_records ver =
     [(''ver_slf'', make_ver_value (self ver)),
      (''ver_src'', make_ver_value (sources ver)),
      (''ver_flw'', make_ver_value (flows ver)),
      (''ver_dvc'', make_ver_value (devices ver)),
      (''ver_snd'', make_ver_value (senders ver)),
      (''ver_rcv'', make_ver_value (receivers ver))]"

section \<open>Advertising and resolving services (mdns.cpp, namespace experimental)\<close>

text \<open>
  Modelled from the spec: \<open>mdns::make_txt_records\<close> and \<open>mdns::parse_txt_records\<close> belong
  to the DNS-SD layer, which is not among the sources. A TXT record is the text
  \<open>key=value\<close>; it is taken apart at its first equals sign.
\<close>

definition mdns_make_txt_records :: "structured_txt_records \<Rightarrow> string list" where
  "mdns_make_txt_records records = map (\<lambda>(key, text). key @ ''='' @ text) records"

definition mdns_parse_txt_records :: "string list \<Rightarrow> structured_txt_records" where
  "mdns_parse_txt_records records =
     map (\<lambda>r. (takeWhile (\<lambda>c. c \<noteq> CHR ''='') r, drop 1 (dropWhile (\<lambda>c. c \<noteq> CHR ''='') r)))
       records"

text \<open>
  What the accessors of \<open>nmos::fields\<close> and \<open>is04_versions::from_settings\<close> (declared in
  headers that are not among the sources) read from the settings in this file.
  \<open>fields_host_addresses\<close> is \<open>None\<close> when the settings have no such field.
\<close>

record service_settings =
  fields_host_name :: string
  fields_domain :: string
  fields_host_address :: string
  fields_host_addresses :: "string list option"
  fields_node_port :: int
  fields_query_port :: int
  fields_registration_port :: int
  fields_pri :: service_priority
  is04_versions_from_settings :: "api_version set"

definition service_port :: "service_type \<Rightarrow> service_settings \<Rightarrow> int" where
  "service_port service settings =
     (if service_types_node = service then fields_node_port settings
      else if service_types_query = service then fields_query_port settings
      else if service_types_registration = service then fields_registration_port settings
      else 0)"

definition service_api :: "service_type \<Rightarrow> string" where
  "service_api service =
     (if service_types_node = service then ''node''
      else if service_types_query = service then ''query''
      else if service_types_registration = service then ''registration''
      else [])"

definition service_base_name :: "service_type \<Rightarrow> string" where
  "service_base_name service = ''nmos-cpp_'' @ service_api service"

definition replace_all_copy :: "string \<Rightarrow> char \<Rightarrow> char \<Rightarrow> string" where
  "replace_all_copy text old new = map (\<lambda>c. if c = old then new else c) text"

definition service_name :: "service_type \<Rightarrow> service_settings \<Rightarrow> string" where
  "service_name service settings =
     replace_all_copy
       (service_base_name service @ ''_'' @ fields_host_address settings @ '':''
          @ ostringstreamed_int (service_port service settings))
       CHR ''.'' CHR ''-''"

text \<open>The calls that reach the advertiser, in the order they are made.\<close>

datatype advertiser_call =
    Register_address string string string
  | Register_service string service_type "16 word" string string "string list"

text \<open>
  \<open>register_service\<close>: the calls made on the advertiser. For the registration service
  the lowest version is read through \<open>*api_ver.begin()\<close>, which has no defined result
  when the set of versions is empty: that case is \<open>None\<close>. The call of
  \<open>make_txt_records\<close> leaves the protocol to its default, \<open>http\<close>.
\<close>

definition register_service ::
  "service_type \<Rightarrow> service_settings \<Rightarrow> advertiser_call list option" where
  "register_service service settings =
     (let addresses =
            (if fields_host_name settings \<noteq> []
             then map (\<lambda>a. Register_address (fields_host_name settings) a (fields_domain settings))
                    (case fields_host_addresses settings of
                       Some as \<Rightarrow> as
                     | None \<Rightarrow> [fields_host_address settings])
             else []);
          instance_name = service_name service settings;
          instance_port = (word_of_int (service_port service settings) :: 16 word);
          api_ver = is04_versions_from_settings settings;
          records = make_txt_records service (fields_pri settings) api_ver service_protocols_http;
          txt_records = mdns_make_txt_records records;
          advertise = (\<lambda>type. Register_service instance_name type instance_port
                                 (fields_domain settings) (fields_host_name settings) txt_records)
      in if service_types_registration = service then
           (if api_ver = {} then None
            else if Min api_ver < v1_3
            then Some (addresses @ [advertise service, advertise ''_nmos-register._tcp''])
            else Some (addresses @ [advertise ''_nmos-register._tcp'']))
         else Some (addresses @ [advertise service]))"

text \<open>What the discovery hands to the resolve callback, and the URIs that are built.\<close>

record resolve_result =
  resolved_host_name :: string
  resolved_port :: "16 word"
  resolved_txt_records :: "string list"
  resolved_ip_addresses :: "string list"

record uri =
  uri_scheme :: string
  uri_host :: string
  uri_port :: "16 word"
  uri_path :: string

type_synonym resolved_service = "(api_version \<times> service_priority) \<times> uri"

text \<open>
  \<open>std::find_first_of\<close>: the first element of the first range that is equal to some
  element of the second range, if there is one.
\<close>

definition find_first_of :: "'a list \<Rightarrow> 'a list \<Rightarrow> 'a option" where
  "find_first_of xs ys = find (\<lambda>x. x \<in> set ys) xs"

text \<open>
  The resolve callback (lines 264 to 302): it appends to the shared vector of results.
  Every \<open>return true\<close> before the loop leaves the vector as it is.
\<close>

definition resolve_handler ::
  "service_priority \<Rightarrow> api_version set \<Rightarrow> service_type \<Rightarrow> api_version set
     \<Rightarrow> service_priority \<times> service_priority \<Rightarrow> resolve_result
     \<Rightarrow> resolved_service list \<Rightarrow> resolved_service list" where
  "resolve_handler no_priority unspecified service api_ver priorities resolved results =
     (let records = mdns_parse_txt_records (resolved_txt_records resolved);
          resolved_pri = parse_pri_record no_priority records
      in if service \<noteq> service_types_node \<and> resolved_pri < fst priorities then results
         else if service \<noteq> service_types_node \<and> snd priorities < resolved_pri then results
         else
           (let resolved_proto = parse_api_proto_record records
            in if service_protocols_http \<noteq> resolved_proto then results
               else
                 (let resolved_vers = parse_api_ver_record unspecified records
                  in case find_first_of (rev (sorted_list_of_set resolved_vers))
                            (rev (sorted_list_of_set api_ver)) of
                       None \<Rightarrow> results
                     | Some resolved_ver \<Rightarrow>
                         results @
                         map (\<lambda>ip_address.
                                ((resolved_ver, resolved_pri),
                                 \<lparr>uri_scheme = resolved_proto,
                                  uri_host = ip_address,
                                  uri_port = resolved_port resolved,
                                  uri_path = ''/x-nmos/'' @ service_api service @ ''/''
                                             @ make_api_version resolved_ver\<rparr>))
                           (resolved_ip_addresses resolved))))"

text \<open>
  The browse callback resolves each browse result and runs the resolve callback on what
  the discovery delivers for it; \<open>delivered\<close> holds, for each browse result in turn, the
  resolve results delivered.
\<close>

definition collect_results ::
  "service_priority \<Rightarrow> api_version set \<Rightarrow> service_type \<Rightarrow> api_version set
     \<Rightarrow> service_priority \<times> service_priority \<Rightarrow> resolve_result list list
     \<Rightarrow> resolved_service list" where
  "collect_results no_priority unspecified service api_ver priorities delivered =
     foldl (\<lambda>results resolved.
              resolve_handler no_priority unspecified service api_ver priorities resolved results)
       [] (concat delivered)"

text \<open>
  \<open>std::stable_sort\<close> with a comparison: the sorted sequence in which elements that the
  comparison does not order keep their relative order. Each element is put before the
  first element of the sorted rest that it is not behind.
\<close>

fun insert_sorted :: "('a \<Rightarrow> 'a \<Rightarrow> bool) \<Rightarrow> 'a \<Rightarrow> 'a list \<Rightarrow> 'a list" where
  "insert_sorted before x [] = [x]"
| "insert_sorted before x (y # ys) =
     (if before y x then y # insert_sorted before x ys else x # y # ys)"

definition stable_sort :: "('a \<Rightarrow> 'a \<Rightarrow> bool) \<Rightarrow> 'a list \<Rightarrow> 'a list" where
  "stable_sort before xs = foldr (insert_sorted before) xs []"

text \<open>The comparison of lines 319 to 323.\<close>

definition preferred :: "resolved_service \<Rightarrow> resolved_service \<Rightarrow> bool" where
  "preferred lhs rhs =
     (fst (fst lhs) > fst (fst rhs)
      \<or> (fst (fst lhs) = fst (fst rhs) \<and> snd (fst lhs) < snd (fst rhs)))"

text \<open>
  A key for the comparison above, used to state and prove the order of the ranking:
  \<open>preferred a b\<close> holds exactly when the key of \<open>a\<close> is smaller than the key of \<open>b\<close>
  in the lexicographic order.
\<close>

definition rank_key :: "resolved_service \<Rightarrow> (int \<times> int) \<times> int" where
  "rank_key s = ((- int (fst (fst (fst s))), - int (snd (fst (fst s)))), snd (fst s))"

text \<open>
  The continuation of lines 304 to 326. \<open>shuffle\<close> stands for \<open>std::shuffle\<close> with the
  seeded random engine.
\<close>

definition rank_results ::
  "bool \<Rightarrow> (resolved_service list \<Rightarrow> resolved_service list) \<Rightarrow> resolved_service list
     \<Rightarrow> uri list" where
  "rank_results randomize shuffle results =
     map snd (stable_sort preferred (if randomize then shuffle results else results))"

definition resolve_service ::
  "service_priority \<Rightarrow> api_version set \<Rightarrow> (resolved_service list \<Rightarrow> resolved_service list)
     \<Rightarrow> resolve_result list list \<Rightarrow> service_type \<Rightarrow> api_version set
     \<Rightarrow> service_priority \<times> service_priority \<Rightarrow> bool \<Rightarrow> uri list" where
  "resolve_service no_priority unspecified shuffle delivered service api_ver priorities randomize =
     rank_results randomize shuffle
       (collect_results no_priority unspecified service api_ver priorities delivered)"

text \<open>
  For stating the properties of the resolution. A candidate is \<open>rejected\<close> when its
  protocol is not \<open>http\<close>, or the versions it advertises have none in common with the
  versions the caller requires, or (for every service but the Node API) its priority is
  outside the band \<open>priorities\<close>, bounds included. \<open>candidate_uris\<close> are the results that
  a candidate which is not rejected adds: one for each address, under the highest common
  version.
\<close>

definition rejected ::
  "service_priority \<Rightarrow> api_version set \<Rightarrow> service_type \<Rightarrow> api_version set
     \<Rightarrow> service_priority \<times> service_priority \<Rightarrow> resolve_result \<Rightarrow> bool" where
  "rejected no_priority unspecified service api_ver priorities resolved =
     (let records = mdns_parse_txt_records (resolved_txt_records resolved);
          resolved_pri = parse_pri_record no_priority records
      in parse_api_proto_record records \<noteq> service_protocols_http
         \<or> parse_api_ver_record unspecified records \<inter> api_ver = {}
         \<or> (service \<noteq> service_types_node
             \<and> (resolved_pri < fst priorities \<or> snd priorities < resolved_pri)))"

definition candidate_uris ::
  "service_priority \<Rightarrow> api_version set \<Rightarrow> service_type \<Rightarrow> api_version set
     \<Rightarrow> resolve_result \<Rightarrow> resolved_service list" where
  "candidate_uris no_priority unspecified service api_ver resolved =
     (let records = mdns_parse_txt_records (resolved_txt_records resolved);
          highest = Max (parse_api_ver_record unspecified records \<inter> api_ver)
      in map (\<lambda>ip_address.
                ((highest, parse_pri_record no_priority records),
                 \<lparr>uri_scheme = ''http'',
                  uri_host = ip_address,
                  uri_port = resolved_port resolved,
                  uri_path = ''/x-nmos/'' @ service_api service @ ''/''
                             @ make_api_version highest\<rparr>))
           (resolved_ip_addresses resolved))"

text \<open>
  A candidate for concrete runs: one address, port 3210, and the TXT records
  \<open>api_proto=http\<close>, \<open>api_ver=v1.2,v1.3\<close> and \<open>pri\<close> with the given text.
\<close>

definition example_candidate :: "string \<Rightarrow> resolve_result" where
  "example_candidate pri_text =
     \<lparr>resolved_host_name = ''registry.local'',
      resolved_port = 3210,
      resolved_txt_records = [''api_proto=http'', ''api_ver=v1.2,v1.3'', ''pri='' @ pri_text],
      resolved_ip_addresses = [''10.0.0.1'']\<rparr>"

text \<open>The service types of the \<open>register_service\<close> calls made on the advertiser.\<close>

fun registered_types :: "advertiser_call list \<Rightarrow> service_type list" where
  "registered_types [] = []"
| "registered_types (Register_address h a d # calls) = registered_types calls"
| "registered_types (Register_service n t p d h txt # calls) = t # registered_types calls"

section \<open>Event types (event\_type.h, exercised by test/event\_type\_test.cpp)\<close>

text \<open>
  Modelled from the spec: \<open>nmos::event_type\<close>, \<open>event_types::measurement\<close> and
  \<open>is_matching_event_type\<close> are declared in a header that is not among the sources; only
  their test is. The spec describes an event type as a hierarchical tag
  \<open>base/sub/sub-unit\<close> and supports a wildcard component at the tail for subscription
  matching, under the exact-prefix-plus-unit rule: a subscriber type that ends in the
  wildcard matches the types that agree with it on every level before the wildcard and
  name something at the level of the wildcard; a subscriber type without wildcard matches
  the identical type only.
\<close>

type_synonym event_type = string

definition event_types_boolean :: event_type where
  "event_types_boolean = ''boolean''"

definition event_types_number :: event_type where
  "event_types_number = ''number''"

definition event_types_wildcard :: string where
  "event_types_wildcard = ''*''"

definition measurement :: "event_type \<Rightarrow> string \<Rightarrow> event_type" where
  "measurement base name = base @ ''/'' @ name"

definition measurement_unit :: "event_type \<Rightarrow> string \<Rightarrow> string \<Rightarrow> event_type" where
  "measurement_unit base name unit_name = base @ ''/'' @ name @ ''/'' @ unit_name"

definition is_matching_event_type :: "event_type \<Rightarrow> event_type \<Rightarrow> bool" where
  "is_matching_event_type capability event =
     (let c = boost_split (\<lambda>x. x = CHR ''/'') capability;
          t = boost_split (\<lambda>x. x = CHR ''/'') event
      in if last c = event_types_wildcard
         then length t = length c \<and> butlast t = butlast c
         else capability = event)"

section \<open>Properties of the System API\<close>

text \<open>
  C10. GET on \<open>/x-nmos/system/v1.0/global\<close> never answers 404: in every state of the
  registry model the reply is 200 with the stored data of the system global resource when
  that resource has data, and 500 Internal Server Error (without a body) when it has none.
\<close>

theorem get_global_never_not_found:
  "snd (get_global has_data model) =
     (if has_data (system_global_resource model)
      then Replied OK (Some (data (system_global_resource model)))
      else Replied InternalError None)
   \<and> (\<forall>st b. snd (get_global has_data model) = Replied st b \<longrightarrow>
         status_value st \<noteq> 404 \<and>
         status_value st = (if has_data (system_global_resource model) then 200 else 500))"
  by (auto simp: get_global_def)

theorem get_global_never_not_found_witness:
  "snd (get_global (\<lambda>r. data r \<noteq> JNull)
          \<lparr>model_settings = [], system_global_resource =
             \<lparr>version = (1, 0), type = global, data = JNull, never_expire = True\<rparr>\<rparr>)
     = Replied InternalError None
   \<and> snd (get_global (\<lambda>r. data r \<noteq> JNull)
          \<lparr>model_settings = [], system_global_resource =
             \<lparr>version = (1, 0), type = global, data = JString ''x'', never_expire = True\<rparr>\<rparr>)
     = Replied OK (Some (JString ''x''))"
  using get_global_never_not_found [of "\<lambda>r. data r \<noteq> JNull"
          "\<lparr>model_settings = [], system_global_resource =
             \<lparr>version = (1, 0), type = global, data = JNull, never_expire = True\<rparr>\<rparr>"]
        get_global_never_not_found [of "\<lambda>r. data r \<noteq> JNull"
          "\<lparr>model_settings = [], system_global_resource =
             \<lparr>version = (1, 0), type = global, data = JString ''x'', never_expire = True\<rparr>\<rparr>"]
  by simp

text \<open>
  C9. PUT to \<open>/x-nmos/system/v1.0/global\<close> validates the body against the system global
  schema. When \<open>allow_invalid_resources\<close> is not set, a body that fails validation is
  rejected (the handler throws the JSON error) and the stored system global resource is
  unchanged. When it is set, the failure is only logged as a warning, the body is stored
  as the new system global resource and the reply is 201 Created with the body.
\<close>

theorem put_global_validation:
  "(allow_invalid_resources (model_settings model) = Inr False \<and> validate body ver = Some what
      \<longrightarrow> put_global validate model ver body = (model, [], Thrown (json_exception what)))
   \<and> (allow_invalid_resources (model_settings model) = Inr True \<and> validate body ver = Some what
      \<longrightarrow> (case put_global validate model ver body of (model', lg, out) \<Rightarrow>
            data (system_global_resource model') = body
          \<and> model_settings model' = model_settings model
          \<and> lg = [(warning, ''JSON error: '' @ what)]
          \<and> out = Replied Created (Some body)
          \<and> status_value Created = 201))"
  by (simp add: put_global_def)

theorem put_global_validation_witness:
  "put_global (\<lambda>b v. if is_object b then None else Some ''not an object'')
      \<lparr>model_settings = [], system_global_resource =
         \<lparr>version = (1, 0), type = global, data = JString ''old'', never_expire = True\<rparr>\<rparr>
      (1, 0) (JNumber 3)
     = (\<lparr>model_settings = [], system_global_resource =
         \<lparr>version = (1, 0), type = global, data = JString ''old'', never_expire = True\<rparr>\<rparr>,
        [], Thrown (json_exception ''not an object''))
   \<and> put_global (\<lambda>b v. if is_object b then None else Some ''not an object'')
      \<lparr>model_settings = [(''allow_invalid_resources'', JBool True)], system_global_resource =
         \<lparr>version = (1, 0), type = global, data = JString ''old'', never_expire = True\<rparr>\<rparr>
      (1, 0) (JNumber 3)
     = (\<lparr>model_settings = [(''allow_invalid_resources'', JBool True)], system_global_resource =
         \<lparr>version = (1, 0), type = global, data = JNumber 3, never_expire = True\<rparr>\<rparr>,
        [(warning, ''JSON error: not an object'')], Replied Created (Some (JNumber 3)))"
  using put_global_validation [of
      "\<lparr>model_settings = [], system_global_resource =
         \<lparr>version = (1, 0), type = global, data = JString ''old'', never_expire = True\<rparr>\<rparr>"
      "\<lambda>b v. if is_object b then None else Some ''not an object''" "JNumber 3" "(1, 0)"
      "''not an object''"]
    put_global_validation [of
      "\<lparr>model_settings = [(''allow_invalid_resources'', JBool True)], system_global_resource =
         \<lparr>version = (1, 0), type = global, data = JString ''old'', never_expire = True\<rparr>\<rparr>"
      "\<lambda>b v. if is_object b then None else Some ''not an object''" "JNumber 3" "(1, 0)"
      "''not an object''"]
  by (simp add: allow_invalid_resources_def put_global_def)

section \<open>Properties of the node executable\<close>

lemma map_of_json_insert:
  "map_of (json_insert s (k', v)) k = (if k = k' \<and> map_of s k' = None then Some v else map_of s k)"
  by (simp add: json_insert_def has_field_def map_add_def split: option.splits)

lemma http_port_defaults_shape:
  assumes "insert_http_port_defaults s = Inr s'" and "has_field s ''http_port''"
  shows "\<exists>p. map_of s ''http_port'' = Some (JNumber p) \<and>
             s' = json_insert (json_insert (json_insert (json_insert (json_insert s
               (''registration_port'', JNumber p))
               (''node_port'', JNumber p))
               (''connection_port'', JNumber p))
               (''settings_port'', JNumber p))
               (''logging_port'', JNumber p)"
proof -
  from assms(2) obtain v where v: "map_of s ''http_port'' = Some v"
    by (auto simp: has_field_def)
  with assms obtain p where p: "v = JNumber p"
    by (cases v) (simp_all add: insert_http_port_defaults_def)
  with assms v show ?thesis
    by (simp add: insert_http_port_defaults_def)
qed

lemma http_port_defaults_other:
  assumes "insert_http_port_defaults s = Inr s'"
    and "k \<noteq> ''registration_port''" "k \<noteq> ''node_port''" "k \<noteq> ''connection_port''"
        "k \<noteq> ''settings_port''" "k \<noteq> ''logging_port''"
  shows "map_of s' k = map_of s k"
proof (cases "has_field s ''http_port''")
  case False
  with assms(1) show ?thesis by (simp add: insert_http_port_defaults_def)
next
  case True
  from http_port_defaults_shape [OF assms(1) True] obtain p where
    "s' = json_insert (json_insert (json_insert (json_insert (json_insert s
               (''registration_port'', JNumber p))
               (''node_port'', JNumber p))
               (''connection_port'', JNumber p))
               (''settings_port'', JNumber p))
               (''logging_port'', JNumber p)" by blast
  then show ?thesis using assms(2-) by (simp add: map_of_json_insert)
qed

lemma insert_logging_level_map:
  "insert_logging_level env s = Inr t \<Longrightarrow> k \<noteq> ''seed_id'' \<Longrightarrow> k \<noteq> ''logging_level''
     \<Longrightarrow> map_of t k = map_of s k"
  by (auto simp: insert_logging_level_def Let_def map_of_json_insert
           split: option.splits json.splits)

lemma insert_host_addresses_map:
  "k \<noteq> ''host_addresses'' \<Longrightarrow> map_of (insert_host_addresses env s) k = map_of s k"
  by (simp add: insert_host_addresses_def map_of_json_insert)

lemma insert_host_address_map:
  "insert_host_address s = Inr t \<Longrightarrow> k \<noteq> ''host_address'' \<Longrightarrow> map_of t k = map_of s k"
  by (auto simp: insert_host_address_def map_of_json_insert
           split: if_splits option.splits json.splits list.splits)

lemma prepare_settings_stages:
  assumes "prepare_settings env s = Inr s'"
  shows "\<exists>t. insert_http_port_defaults t = Inr s' \<and>
             (\<forall>k. k \<notin> {''seed_id'', ''logging_level'', ''host_addresses'', ''host_address''}
                   \<longrightarrow> map_of t k = map_of s k)"
proof -
  from assms obtain s2 s4 where
    a: "insert_logging_level env s = Inr s2" and
    b: "insert_host_address (insert_host_addresses env s2) = Inr s4" and
    c: "insert_http_port_defaults s4 = Inr s'"
    by (auto simp: prepare_settings_def split: sum.splits)
  have "map_of s4 k = map_of s k"
    if "k \<notin> {''seed_id'', ''logging_level'', ''host_addresses'', ''host_address''}" for k
    using that insert_logging_level_map [OF a, of k] insert_host_addresses_map [of k env s2]
      insert_host_address_map [OF b, of k]
    by simp
  with c show ?thesis by blast
qed

lemma main_exit: "snd (main env argv) = (if command_line_settings env argv = None then - 1 else 0)"
  by (simp add: main_def split: option.splits sum.splits)

lemma command_line_settings_None:
  "command_line_settings env argv = None \<longleftrightarrow>
     1 < length argv \<and>
     (case parse_argument env (argv ! 1) of
        Some v \<Rightarrow> \<not> is_object v
      | None \<Rightarrow> (case parse_file env (argv ! 1) of Some v \<Rightarrow> \<not> is_object v | None \<Rightarrow> True))"
  by (simp add: command_line_settings_def Let_def split: option.splits json.splits)

text \<open>
  C7 (as the code has it). \<open>main\<close> returns -1 exactly when an argument is given and the
  settings cannot be taken from it: the argument does not parse as JSON and neither does
  the file of that name, or what was parsed is not a JSON object. In every other case it
  returns 0: on a clean shutdown, and also when an exception is thrown while the settings
  are prepared or while the node runs, since every handler after the \<open>try\<close> block logs
  the exception and falls through to \<open>return 0\<close>.
\<close>

theorem main_exit_code:
  "snd (main env argv) =
     (if 1 < length argv \<and>
         (case parse_argument env (argv ! 1) of
            Some v \<Rightarrow> \<not> is_object v
          | None \<Rightarrow> (case parse_file env (argv ! 1) of Some v \<Rightarrow> \<not> is_object v | None \<Rightarrow> True))
      then - 1 else 0)"
  using command_line_settings_None [of env argv] by (simp add: main_exit)

theorem main_exit_code_witness:
  "snd (main example_env [''nmos-cpp-node'', ''{oops'']) = - 1
   \<and> snd (main example_env [''nmos-cpp-node'']) = 0
   \<and> snd (main faulty_env [''nmos-cpp-node'']) = 0"
  using main_exit_code [of example_env "[''nmos-cpp-node'', ''{oops'']"]
    main_exit_code [of example_env "[''nmos-cpp-node'']"]
    main_exit_code [of faulty_env "[''nmos-cpp-node'']"]
  by (simp add: example_env_def faulty_env_def)

theorem main_fault_exit_code_counterexample:
  "main faulty_env [''nmos-cpp-node''] =
     ([(info, ''Starting nmos-cpp node''), (error, ''Implementation error: ''),
       (info, ''Stopping nmos-cpp node'')], 0)"
  by (simp add: main_def command_line_settings_def prepare_settings_def
      insert_logging_level_def insert_host_addresses_def insert_host_address_def
      insert_http_port_defaults_def json_insert_def has_field_def faulty_env_def example_env_def)

text \<open>
  C8 (as the code has it). When \<open>http_port\<close> is present and the settings are prepared
  without a JSON error, each of \<open>registration_port\<close>, \<open>node_port\<close>, \<open>connection_port\<close>,
  \<open>settings_port\<close> and \<open>logging_port\<close> that was omitted has the value of \<open>http_port\<close>,
  and each that was given keeps its value; \<open>query_port\<close>, \<open>system_port\<close> and
  \<open>events_ws_port\<close> are left as they were, so an omitted one stays omitted.
\<close>

theorem http_port_defaults:
  assumes "prepare_settings env s = Inr s'" and "has_field s ''http_port''"
  shows "(\<forall>k \<in> {''registration_port'', ''node_port'', ''connection_port'', ''settings_port'',
                 ''logging_port''}.
            map_of s' k = (if has_field s k then map_of s k else map_of s ''http_port''))
       \<and> (\<forall>k \<in> {''query_port'', ''system_port'', ''events_ws_port''}. map_of s' k = map_of s k)"
proof -
  from prepare_settings_stages [OF assms(1)] obtain t where
    t: "insert_http_port_defaults t = Inr s'" and
    same: "\<And>k. k \<notin> {''seed_id'', ''logging_level'', ''host_addresses'', ''host_address''}
              \<Longrightarrow> map_of t k = map_of s k"
    by blast
  have hp: "has_field t ''http_port''"
    using assms(2) same [of "''http_port''"] by (simp add: has_field_def)
  from http_port_defaults_shape [OF t hp] obtain p where
    p: "map_of t ''http_port'' = Some (JNumber p)" and
    s': "s' = json_insert (json_insert (json_insert (json_insert (json_insert t
               (''registration_port'', JNumber p))
               (''node_port'', JNumber p))
               (''connection_port'', JNumber p))
               (''settings_port'', JNumber p))
               (''logging_port'', JNumber p)" by blast
  have p': "map_of s ''http_port'' = Some (JNumber p)"
    using p same [of "''http_port''"] by simp
  have 1: "map_of s' ''registration_port'' = (if has_field s ''registration_port'' then map_of s ''registration_port'' else map_of s ''http_port'')"
    using same [of "''registration_port''"]
    by (simp add: s' p' map_of_json_insert has_field_def)
  have 2: "map_of s' ''node_port'' = (if has_field s ''node_port'' then map_of s ''node_port'' else map_of s ''http_port'')"
    using same [of "''node_port''"]
    by (simp add: s' p' map_of_json_insert has_field_def)
  have 3: "map_of s' ''connection_port'' = (if has_field s ''connection_port'' then map_of s ''connection_port'' else map_of s ''http_port'')"
    using same [of "''connection_port''"]
    by (simp add: s' p' map_of_json_insert has_field_def)
  have 4: "map_of s' ''settings_port'' = (if has_field s ''settings_port'' then map_of s ''settings_port'' else map_of s ''http_port'')"
    using same [of "''settings_port''"]
    by (simp add: s' p' map_of_json_insert has_field_def)
  have 5: "map_of s' ''logging_port'' = (if has_field s ''logging_port'' then map_of s ''logging_port'' else map_of s ''http_port'')"
    using same [of "''logging_port''"]
    by (simp add: s' p' map_of_json_insert has_field_def)
  have 6: "map_of s' ''query_port'' = map_of s ''query_port''"
    using same [of "''query_port''"] http_port_defaults_other [OF t, of "''query_port''"] by simp
  have 7: "map_of s' ''system_port'' = map_of s ''system_port''"
    using same [of "''system_port''"] http_port_defaults_other [OF t, of "''system_port''"] by simp
  have 8: "map_of s' ''events_ws_port'' = map_of s ''events_ws_port''"
    using same [of "''events_ws_port''"] http_port_defaults_other [OF t, of "''events_ws_port''"] by simp
  show ?thesis using 1 2 3 4 5 6 7 8 by simp
qed

theorem http_port_defaults_witness:
  "prepare_settings example_env [(''http_port'', JNumber 3210), (''node_port'', JNumber 80)] =
     Inr [(''http_port'', JNumber 3210), (''node_port'', JNumber 80),
          (''seed_id'', JString ''id''), (''logging_level'', JNumber 0),
          (''registration_port'', JNumber 3210), (''connection_port'', JNumber 3210),
          (''settings_port'', JNumber 3210), (''logging_port'', JNumber 3210)]
   \<and> has_field [(''http_port'', JNumber 3210), (''node_port'', JNumber 80)] ''http_port''"
proof -
  have a: "prepare_settings example_env [(''http_port'', JNumber 3210), (''node_port'', JNumber 80)] =
     Inr [(''http_port'', JNumber 3210), (''node_port'', JNumber 80),
          (''seed_id'', JString ''id''), (''logging_level'', JNumber 0),
          (''registration_port'', JNumber 3210), (''connection_port'', JNumber 3210),
          (''settings_port'', JNumber 3210), (''logging_port'', JNumber 3210)]"
    by (simp add: prepare_settings_def insert_logging_level_def insert_host_addresses_def
        insert_host_address_def insert_http_port_defaults_def json_insert_def has_field_def
        example_env_def)
  have b: "has_field [(''http_port'', JNumber 3210), (''node_port'', JNumber 80)] ''http_port''"
    by (simp add: has_field_def)
  from http_port_defaults [OF a b] a b show ?thesis by simp
qed

theorem http_port_defaults_counterexample:
  "prepare_settings example_env [(''http_port'', JNumber 3210)] =
     Inr [(''http_port'', JNumber 3210), (''seed_id'', JString ''id''),
          (''logging_level'', JNumber 0), (''registration_port'', JNumber 3210),
          (''node_port'', JNumber 3210), (''connection_port'', JNumber 3210),
          (''settings_port'', JNumber 3210), (''logging_port'', JNumber 3210)]
   \<and> map_of [(''http_port'', JNumber 3210), (''seed_id'', JString ''id''),
          (''logging_level'', JNumber 0), (''registration_port'', JNumber 3210),
          (''node_port'', JNumber 3210), (''connection_port'', JNumber 3210),
          (''settings_port'', JNumber 3210), (''logging_port'', JNumber 3210)] ''query_port''
      \<noteq> Some (JNumber 3210)"
  by (simp add: prepare_settings_def insert_logging_level_def insert_host_addresses_def
      insert_host_address_def insert_http_port_defaults_def json_insert_def has_field_def
      example_env_def)

section \<open>Properties of the text of numbers and versions\<close>

lemma digit_value_digit_char: "d < 10 \<Longrightarrow> digit_value (digit_char d) = d"
  apply (simp add: less_Suc_eq numeral_eq_Suc)
  apply (elim disjE)
  apply (simp_all add: digit_value_def digit_char_def)
  done

lemma is_digit_digit_char: "d < 10 \<Longrightarrow> is_digit (digit_char d)"
  apply (simp add: less_Suc_eq numeral_eq_Suc)
  apply (elim disjE)
  apply (simp_all add: is_digit_def digit_char_def)
  done

lemma digits_all_digit: "list_all is_digit (digits n)"
proof (induction n rule: digits.induct)
  case (1 n)
  show ?case
  proof (cases "n < 10")
    case True
    then show ?thesis by (simp add: digits.simps [of n] is_digit_digit_char)
  next
    case False
    with 1 show ?thesis by (simp add: digits.simps [of n] is_digit_digit_char)
  qed
qed

lemma digits_not_Nil: "digits n \<noteq> []"
  by (simp add: digits.simps [of n])

lemma digits_value_snoc: "digits_value (ds @ [c]) = 10 * digits_value ds + digit_value c"
  by (simp add: digits_value_def)

lemma digits_value_digits: "digits_value (digits n) = n"
proof (induction n rule: digits.induct)
  case (1 n)
  show ?case
  proof (cases "n < 10")
    case True
    then show ?thesis
      by (simp add: digits.simps [of n] digits_value_def digit_value_digit_char)
  next
    case False
    with 1 have "digits_value (digits (n div 10)) = n div 10" by simp
    with False show ?thesis
      by (simp add: digits.simps [of n] digits_value_snoc digit_value_digit_char)
  qed
qed

lemma takeWhile_all_then: "list_all P xs \<Longrightarrow> \<not> P y \<Longrightarrow> takeWhile P (xs @ y # ys) = xs"
  by (induction xs) simp_all

lemma dropWhile_all_then: "list_all P xs \<Longrightarrow> \<not> P y \<Longrightarrow> dropWhile P (xs @ y # ys) = y # ys"
  by (induction xs) simp_all

lemma takeWhile_all: "list_all P xs \<Longrightarrow> takeWhile P xs = xs"
  by (induction xs) simp_all

lemma digit_not_space: "is_digit c \<Longrightarrow> \<not> is_space c"
  by (auto simp: is_digit_def is_space_def)

lemma digit_not_sign: "is_digit c \<Longrightarrow> c \<noteq> CHR ''-'' \<and> c \<noteq> CHR ''+''"
  by (auto simp: is_digit_def)

lemma istringstreamed_digits:
  "istringstreamed_int (digits n) d = max INT_MIN (min INT_MAX (int n))"
proof -
  obtain c cs where cs: "digits n = c # cs"
    using digits_not_Nil [of n] by (cases "digits n") auto
  have all: "list_all is_digit (c # cs)"
    using digits_all_digit [of n] cs by simp
  then have c: "is_digit c" by simp
  have sp: "dropWhile is_space (c # cs) = c # cs"
    using digit_not_space [OF c] by simp
  have tw: "takeWhile is_digit (c # cs) = c # cs"
    using all by (rule takeWhile_all)
  have v: "digits_value (c # cs) = n"
    using digits_value_digits [of n] cs by simp
  have sg: "c \<noteq> CHR ''-''" "c \<noteq> CHR ''+''"
    using digit_not_sign [OF c] by simp_all
  show ?thesis
    unfolding cs istringstreamed_int_def sp list.case Let_def
    by (simp only: sg tw v simp_thms if_False list.distinct)
qed

lemma istringstreamed_minus_digits:
  "istringstreamed_int (CHR ''-'' # digits n) d = max INT_MIN (min INT_MAX (- int n))"
proof -
  have tw: "takeWhile is_digit (digits n) = digits n"
    using digits_all_digit by (rule takeWhile_all)
  have sp: "dropWhile is_space (CHR ''-'' # digits n) = CHR ''-'' # digits n"
    by (simp add: is_space_def)
  show ?thesis
    unfolding istringstreamed_int_def sp list.case Let_def
    by (simp only: tw digits_value_digits digits_not_Nil simp_thms if_True if_False)
qed

lemma istringstreamed_ostringstreamed:
  "INT_MIN \<le> v \<Longrightarrow> v \<le> INT_MAX \<Longrightarrow> istringstreamed_int (ostringstreamed_int v) d = v"
  by (simp add: ostringstreamed_int_def istringstreamed_digits istringstreamed_minus_digits)

lemma parse_pri_make_pri:
  "INT_MIN \<le> pri \<Longrightarrow> pri \<le> INT_MAX \<Longrightarrow> parse_pri_value np (make_pri_value pri) = pri"
  by (simp add: parse_pri_value_def make_pri_value_def istringstreamed_ostringstreamed)

lemma sint_32_range: "INT_MIN \<le> sint (w :: 32 word) \<and> sint w \<le> INT_MAX"
  using sint_ge [of w] sint_lt [of w] by (simp add: INT_MIN_def INT_MAX_def)

lemma scast_ucast_32:
  "LENGTH('a::len) \<le> 32 \<Longrightarrow> (scast (ucast (w :: 'a word) :: 32 word) :: 'a word) = w"
  by (rule bit_word_eqI) (auto simp: bit_simps)

lemma parse_ver_make_ver:
  "LENGTH('a::len) \<le> 32 \<Longrightarrow> parse_ver_value (make_ver_value (w :: 'a word)) = w"
  using sint_32_range [of "ucast w"]
  by (simp add: parse_ver_value_def make_ver_value_def istringstreamed_ostringstreamed
      scast_ucast_32)

lemma not_digit_dot: "\<not> is_digit CHR ''.''"
  by (simp add: is_digit_def)

lemma parse_make_api_version: "parse_api_version (make_api_version ver) = ver"
proof -
  obtain a b where ver: "ver = (a, b)" by (cases ver)
  have t: "takeWhile is_digit (digits a @ CHR ''.'' # digits b) = digits a"
    by (rule takeWhile_all_then [OF digits_all_digit not_digit_dot])
  have d: "dropWhile is_digit (digits a @ CHR ''.'' # digits b) = CHR ''.'' # digits b"
    by (rule dropWhile_all_then [OF digits_all_digit not_digit_dot])
  have "parse_api_version (CHR ''v'' # (digits a @ CHR ''.'' # digits b)) = (a, b)"
    unfolding parse_api_version_def list.case Let_def t d
    by (simp add: digits_not_Nil digits_all_digit digits_value_digits)
  then show ?thesis by (simp add: ver make_api_version_def)
qed

lemma no_comma_digits: "CHR '','' \<notin> set (digits n)"
proof
  assume "CHR '','' \<in> set (digits n)"
  with digits_all_digit [of n] have "is_digit CHR '',''" by (simp add: list_all_iff)
  then show False by (simp add: is_digit_def)
qed

lemma no_comma_make_api_version: "CHR '','' \<notin> set (make_api_version ver)"
  by (simp add: make_api_version_def no_comma_digits)

lemma boost_split_not_Nil: "boost_split p s \<noteq> []"
  by (induction s) (auto split: list.splits)

lemma boost_split_no_sep: "\<forall>c\<in>set x. \<not> p c \<Longrightarrow> boost_split p x = [x]"
  by (induction x) (auto split: list.splits)

lemma boost_split_token:
  "\<forall>c\<in>set x. \<not> p c \<Longrightarrow> p s \<Longrightarrow> boost_split p (x @ s # rest) = x # boost_split p rest"
  by (induction x) (auto split: list.splits)

lemma boost_split_join:
  assumes "xs \<noteq> []" and "\<forall>x\<in>set xs. sep \<notin> set x"
  shows "boost_split (\<lambda>c. sep = c) (boost_join xs [sep]) = xs"
  using assms
proof (induction xs "[sep]" rule: boost_join.induct)
  case 1
  then show ?case by simp
next
  case (2 x)
  then have "\<forall>c\<in>set x. \<not> sep = c" by auto
  then show ?case by (simp add: boost_split_no_sep)
next
  case (3 x y ys)
  then have x: "\<forall>c\<in>set x. \<not> sep = c" by auto
  from 3 have "boost_split (\<lambda>c. sep = c) (boost_join (y # ys) [sep]) = y # ys" by simp
  with x show ?case
    using boost_split_token [of x "\<lambda>c. sep = c" sep "boost_join (y # ys) [sep]"] by simp
qed

lemma parse_make_api_ver_value:
  assumes "finite api_ver" and "api_ver \<noteq> {}"
  shows "parse_api_ver_value (make_api_ver_value api_ver) = api_ver"
proof -
  let ?xs = "map make_api_version (sorted_list_of_set api_ver)"
  have ne: "?xs \<noteq> []" using assms by simp
  have nc: "\<forall>x\<in>set ?xs. CHR '','' \<notin> set x" by (auto simp: no_comma_make_api_version)
  have "boost_split (\<lambda>c. CHR '','' = c) (boost_join ?xs '','') = ?xs"
    using boost_split_join [OF ne nc] by simp
  then have "parse_api_ver_value (make_api_ver_value api_ver)
               = set (map parse_api_version ?xs)"
    by (simp add: parse_api_ver_value_def make_api_ver_value_def)
  also have "\<dots> = set (sorted_list_of_set api_ver)"
    by (simp add: comp_def parse_make_api_version)
  finally show ?thesis using assms by simp
qed

lemma parse_api_ver_value_empty: "parse_api_ver_value (make_api_ver_value {}) = {parse_api_version []}"
  by (simp add: parse_api_ver_value_def make_api_ver_value_def)

lemma finite_parse_api_ver_value: "finite (parse_api_ver_value s)"
  by (simp add: parse_api_ver_value_def)

lemma parse_make_ver_records:
  fixes v :: "('a::len word) api_resource_versions"
  assumes "LENGTH('a) \<le> 32"
  shows "parse_ver_records (make_ver_records v) = v"
  by (cases v)
     (simp add: parse_ver_records_def make_ver_records_def parse_txt_record_def
        parse_ver_make_ver [OF assms])

lemma map_of_make_txt_records:
  "map_of (make_txt_records service pri api_ver api_proto) ''api_proto'' = Some api_proto"
  "map_of (make_txt_records service pri api_ver api_proto) ''api_ver''
     = Some (make_api_ver_value api_ver)"
  "map_of (make_txt_records service pri api_ver api_proto) ''pri''
     = (if service = service_types_node then None else Some (make_pri_value pri))"
  by (simp_all add: make_txt_records_def make_api_proto_value_def)

text \<open>
  C3 (as the code has it). Parsing the TXT records that the make functions produce gives
  the values back: \<open>parse_ver_records (make_ver_records v) = v\<close> for every \<open>v\<close> (the
  counters being unsigned integers of at most 32 bits), and for every service type, every
  priority that is an \<open>int\<close>, every finite set of API versions that is not empty and every
  protocol, \<open>parse_api_proto_record\<close> and \<open>parse_api_ver_record\<close> applied to
  \<open>make_txt_records service pri api_ver api_proto\<close> return \<open>api_proto\<close> and \<open>api_ver\<close>,
  and \<open>parse_pri_record\<close> returns \<open>pri\<close> for every service but the Node API, whose
  records carry no priority, so that it returns \<open>no_priority\<close> there.
\<close>

theorem txt_round_trip:
  fixes v :: "('a::len word) api_resource_versions"
  assumes "LENGTH('a) \<le> 32" and "finite api_ver" and "api_ver \<noteq> {}"
    and "INT_MIN \<le> pri" and "pri \<le> INT_MAX"
  shows "parse_ver_records (make_ver_records v) = v
       \<and> parse_api_proto_record (make_txt_records service pri api_ver api_proto) = api_proto
       \<and> parse_api_ver_record unspecified (make_txt_records service pri api_ver api_proto)
           = api_ver
       \<and> parse_pri_record no_priority (make_txt_records service pri api_ver api_proto)
           = (if service = service_types_node then no_priority else pri)"
proof -
  have 1: "parse_ver_records (make_ver_records v) = v"
    using assms(1) by (rule parse_make_ver_records)
  have 2: "parse_api_proto_record (make_txt_records service pri api_ver api_proto) = api_proto"
    by (simp add: parse_api_proto_record_def parse_txt_record_def map_of_make_txt_records
        parse_api_proto_value_def)
  have 3: "parse_api_ver_record unspecified (make_txt_records service pri api_ver api_proto)
           = api_ver"
    by (simp add: parse_api_ver_record_def parse_txt_record_def map_of_make_txt_records
        parse_make_api_ver_value [OF assms(2,3)])
  have 4: "parse_pri_record no_priority (make_txt_records service pri api_ver api_proto)
           = (if service = service_types_node then no_priority else pri)"
    by (simp add: parse_pri_record_def parse_txt_record_def map_of_make_txt_records
        parse_pri_make_pri [OF assms(4,5)])
  from 1 2 3 4 show ?thesis by simp
qed

theorem txt_round_trip_witness:
  "LENGTH(8) \<le> 32 \<and> finite {(1, 2), (1, 3 :: nat)} \<and> {(1, 2), (1, 3 :: nat)} \<noteq> {}
   \<and> INT_MIN \<le> 50 \<and> 50 \<le> INT_MAX
   \<and> parse_ver_records (make_ver_records
         \<lparr>self = 255 :: 8 word, sources = 1, flows = 2, devices = 3, senders = 4, receivers = 5\<rparr>)
       = \<lparr>self = 255 :: 8 word, sources = 1, flows = 2, devices = 3, senders = 4, receivers = 5\<rparr>
   \<and> parse_api_proto_record (make_txt_records ''_nmos-query._tcp'' 50 {(1, 2), (1, 3)} ''https'')
       = ''https''
   \<and> parse_api_ver_record {(1, 0)} (make_txt_records ''_nmos-query._tcp'' 50 {(1, 2), (1, 3)} ''https'')
       = {(1, 2), (1, 3)}
   \<and> parse_pri_record 100 (make_txt_records ''_nmos-query._tcp'' 50 {(1, 2), (1, 3)} ''https'')
       = 50"
proof -
  have a: "LENGTH(8) \<le> 32" by simp
  have b: "finite {(1, 2), (1, 3 :: nat)}" by simp
  have c: "{(1, 2), (1, 3 :: nat)} \<noteq> {}" by simp
  have d: "INT_MIN \<le> 50" by (simp add: INT_MIN_def)
  have e: "50 \<le> INT_MAX" by (simp add: INT_MAX_def)
  have n: "''_nmos-query._tcp'' \<noteq> service_types_node" by (simp add: service_types_node_def)
  from txt_round_trip [OF a b c d e, of
      "\<lparr>self = 255 :: 8 word, sources = 1, flows = 2, devices = 3, senders = 4, receivers = 5\<rparr>"
      "''_nmos-query._tcp''" "''https''" "{(1, 0)}" 100] a b c d e n
  show ?thesis by simp
qed

theorem txt_round_trip_counterexample:
  "parse_pri_record 100 (make_txt_records service_types_node 10 {(1, 3)} service_protocols_http)
     \<noteq> 10
   \<and> parse_api_ver_record {(1, 0)}
        (make_txt_records service_types_query 10 {} service_protocols_http) \<noteq> {}"
  by (simp add: parse_pri_record_def parse_api_ver_record_def parse_txt_record_def
      map_of_make_txt_records parse_api_ver_value_empty)

section \<open>Properties of the ranking\<close>

lemma preferred_rank_key: "preferred a b \<longleftrightarrow> rank_key a < rank_key b"
  by (cases a; cases b) (auto simp: preferred_def rank_key_def less_prod_def)

lemma insert_sorted_insort_key:
  "insert_sorted preferred x ys = insort_key rank_key x ys"
  by (induction ys) (auto simp: preferred_rank_key)

lemma stable_sort_sort_key: "stable_sort preferred xs = sort_key rank_key xs"
  by (induction xs) (simp_all add: stable_sort_def insert_sorted_insort_key)

lemma rank_key_eq: "rank_key a = rank_key b \<longleftrightarrow> fst a = fst b"
  by (cases a; cases b) (auto simp: rank_key_def)

lemma rank_key_le:
  "rank_key a \<le> rank_key b \<longleftrightarrow>
     fst (fst a) > fst (fst b) \<or> (fst (fst a) = fst (fst b) \<and> snd (fst a) \<le> snd (fst b))"
  by (cases a; cases b) (auto simp: rank_key_def less_eq_prod_def less_prod_def)

lemma stable_sort_mset: "mset (stable_sort preferred xs) = mset xs"
  by (simp add: stable_sort_sort_key)

lemma stable_sort_sorted:
  "sorted_wrt (\<lambda>a b. fst (fst a) > fst (fst b)
                    \<or> (fst (fst a) = fst (fst b) \<and> snd (fst a) \<le> snd (fst b)))
     (stable_sort preferred xs)"
proof -
  have "sorted (map rank_key (sort_key rank_key xs))" by (rule sorted_sort_key)
  then have "sorted_wrt (\<lambda>a b. rank_key a \<le> rank_key b) (sort_key rank_key xs)"
    by (simp add: sorted_map)
  then show ?thesis by (simp add: stable_sort_sort_key rank_key_le)
qed

lemma stable_sort_stable:
  "filter (\<lambda>x. fst x = k) (stable_sort preferred xs) = filter (\<lambda>x. fst x = k) xs"
proof -
  have "filter (\<lambda>x. rank_key x = rank_key (k, u)) (sort_key rank_key xs)
      = filter (\<lambda>x. rank_key x = rank_key (k, u)) xs" for u
    by (rule sort_key_stable)
  then show ?thesis by (simp add: stable_sort_sort_key rank_key_eq)
qed

text \<open>
  C1. With randomisation disabled, \<open>resolve_service\<close> returns the URIs of the collected
  candidates stable-sorted: the returned list is a rearrangement of the candidates in
  which a candidate of a higher version comes before one of a lower version and, among
  candidates of the same version, one of lower priority value comes first, while candidates
  of the same version and priority keep the order in which they were collected. For the
  candidates \<open>(v1.2, 10)\<close>, \<open>(v1.3, 100)\<close>, \<open>(v1.3, 10)\<close> the order returned is
  \<open>(v1.3, 10)\<close>, \<open>(v1.3, 100)\<close>, \<open>(v1.2, 10)\<close>.
\<close>

theorem resolve_service_ranking:
  "(\<exists>ranked.
      rank_results False shuffle results = map snd ranked
      \<and> mset ranked = mset results
      \<and> sorted_wrt (\<lambda>a b. fst (fst b) < fst (fst a)
                          \<or> (fst (fst a) = fst (fst b) \<and> snd (fst a) \<le> snd (fst b))) ranked
      \<and> (\<forall>k. filter (\<lambda>x. fst x = k) ranked = filter (\<lambda>x. fst x = k) results))
   \<and> resolve_service no_priority unspecified shuffle delivered service api_ver priorities False
       = rank_results False shuffle
           (collect_results no_priority unspecified service api_ver priorities delivered)
   \<and> rank_results False shuffle
        [(((1, 2), 10), u1), (((1, 3), 100), u2), (((1, 3), 10), u3)] = [u3, u2, u1]"
proof -
  have "rank_results False shuffle results = map snd (stable_sort preferred results)"
    by (simp add: rank_results_def)
  then have 1: "\<exists>ranked.
      rank_results False shuffle results = map snd ranked
      \<and> mset ranked = mset results
      \<and> sorted_wrt (\<lambda>a b. fst (fst b) < fst (fst a)
                          \<or> (fst (fst a) = fst (fst b) \<and> snd (fst a) \<le> snd (fst b))) ranked
      \<and> (\<forall>k. filter (\<lambda>x. fst x = k) ranked = filter (\<lambda>x. fst x = k) results)"
    using stable_sort_mset [of results] stable_sort_sorted [of results]
      stable_sort_stable [of _ results]
    by blast
  have 2: "resolve_service no_priority unspecified shuffle delivered service api_ver priorities False
       = rank_results False shuffle
           (collect_results no_priority unspecified service api_ver priorities delivered)"
    by (simp add: resolve_service_def)
  have 3: "rank_results False shuffle
        [(((1, 2), 10), u1), (((1, 3), 100), u2), (((1, 3), 10), u3)] = [u3, u2, u1]"
    by (simp add: rank_results_def stable_sort_def preferred_def)
  from 1 2 3 show ?thesis by blast
qed

theorem resolve_service_ranking_witness:
  "rank_results False rev
     [(((1, 2), 10), \<lparr>uri_scheme = ''http'', uri_host = ''a'', uri_port = 80, uri_path = ''/x-nmos/registration/v1.2''\<rparr>),
      (((1, 3), 100), \<lparr>uri_scheme = ''http'', uri_host = ''b'', uri_port = 80, uri_path = ''/x-nmos/registration/v1.3''\<rparr>),
      (((1, 3), 10), \<lparr>uri_scheme = ''http'', uri_host = ''c'', uri_port = 80, uri_path = ''/x-nmos/registration/v1.3''\<rparr>)]
   = [\<lparr>uri_scheme = ''http'', uri_host = ''c'', uri_port = 80, uri_path = ''/x-nmos/registration/v1.3''\<rparr>,
      \<lparr>uri_scheme = ''http'', uri_host = ''b'', uri_port = 80, uri_path = ''/x-nmos/registration/v1.3''\<rparr>,
      \<lparr>uri_scheme = ''http'', uri_host = ''a'', uri_port = 80, uri_path = ''/x-nmos/registration/v1.2''\<rparr>]"
  using resolve_service_ranking [of rev]
  by blast

section \<open>Properties of the version choice\<close>

lemma find_desc:
  "sorted (rev xs) \<Longrightarrow>
     find P xs = (if \<exists>x\<in>set xs. P x then Some (Max {x \<in> set xs. P x}) else None)"
proof (induction xs)
  case Nil
  then show ?case by simp
next
  case (Cons a xs)
  then have srt: "sorted (rev xs)" and le: "\<forall>x\<in>set xs. x \<le> a"
    by (auto simp: sorted_append)
  show ?case
  proof (cases "P a")
    case True
    have "Max {x \<in> set (a # xs). P x} = a"
    proof (rule Max_eqI)
      show "finite {x \<in> set (a # xs). P x}" by simp
      show "\<And>y. y \<in> {x \<in> set (a # xs). P x} \<Longrightarrow> y \<le> a" using le by auto
      show "a \<in> {x \<in> set (a # xs). P x}" using True by simp
    qed
    with True show ?thesis by auto
  next
    case False
    then have "{x \<in> set (a # xs). P x} = {x \<in> set xs. P x}" by auto
    with False Cons.IH [OF srt] show ?thesis by auto
  qed
qed

lemma find_first_of_sets:
  assumes "finite A" and "finite B"
  shows "find_first_of (rev (sorted_list_of_set A)) (rev (sorted_list_of_set B))
           = (if A \<inter> B = {} then None else Some (Max (A \<inter> B)))"
proof -
  have eq: "{x \<in> set (rev (sorted_list_of_set A)). x \<in> B} = A \<inter> B"
    using assms by auto
  have "find (\<lambda>x. x \<in> B) (rev (sorted_list_of_set A))
          = (if \<exists>x\<in>set (rev (sorted_list_of_set A)). x \<in> B
             then Some (Max {x \<in> set (rev (sorted_list_of_set A)). x \<in> B}) else None)"
    by (rule find_desc) simp
  then show ?thesis
    unfolding find_first_of_def using assms eq by auto
qed

lemma finite_parse_api_ver_record:
  "finite unspecified \<Longrightarrow> finite (parse_api_ver_record unspecified records)"
  by (simp add: parse_api_ver_record_def parse_txt_record_def parse_api_ver_value_def
      split: option.splits)

lemma resolve_handler_cases:
  assumes "finite api_ver" and "finite unspecified"
  shows "resolve_handler no_priority unspecified service api_ver priorities resolved results =
           (if rejected no_priority unspecified service api_ver priorities resolved
            then results
            else results @ candidate_uris no_priority unspecified service api_ver resolved)"
proof -
  let ?records = "mdns_parse_txt_records (resolved_txt_records resolved)"
  let ?vers = "parse_api_ver_record unspecified ?records"
  have ff: "find_first_of (rev (sorted_list_of_set ?vers)) (rev (sorted_list_of_set api_ver))
          = (if ?vers \<inter> api_ver = {} then None else Some (Max (?vers \<inter> api_ver)))"
    using finite_parse_api_ver_record [OF assms(2)] assms(1) by (rule find_first_of_sets)
  show ?thesis
    unfolding resolve_handler_def rejected_def candidate_uris_def Let_def ff
    by (auto simp: service_protocols_http_def)
qed

lemma collect_results_filter:
  assumes "finite api_ver" and "finite unspecified"
  shows "foldl (\<lambda>results resolved.
              resolve_handler no_priority unspecified service api_ver priorities resolved results)
            acc rs
       = foldl (\<lambda>results resolved.
              resolve_handler no_priority unspecified service api_ver priorities resolved results)
            acc (filter (\<lambda>r. \<not> rejected no_priority unspecified service api_ver priorities r) rs)"
  by (induction rs arbitrary: acc) (simp_all add: resolve_handler_cases [OF assms])

lemma collect_results_concat:
  assumes "finite api_ver" and "finite unspecified"
  shows "foldl (\<lambda>results resolved.
              resolve_handler no_priority unspecified service api_ver priorities resolved results)
            acc rs
       = acc @ concat (map (candidate_uris no_priority unspecified service api_ver)
            (filter (\<lambda>r. \<not> rejected no_priority unspecified service api_ver priorities r) rs))"
  by (induction rs arbitrary: acc) (simp_all add: resolve_handler_cases [OF assms])

section \<open>Properties of the resolution\<close>

lemma example_records:
  "mdns_parse_txt_records (resolved_txt_records (example_candidate pri_text))
     = [(''api_proto'', ''http''), (''api_ver'', ''v1.2,v1.3''), (''pri'', pri_text)]"
  by (simp add: example_candidate_def mdns_parse_txt_records_def)

lemma parse_v1_2: "parse_api_version ''v1.2'' = (1, 2)"
  by (simp add: parse_api_version_def is_digit_def digits_value_def digit_value_def)

lemma parse_v1_3: "parse_api_version ''v1.3'' = (1, 3)"
  by (simp add: parse_api_version_def is_digit_def digits_value_def digit_value_def)

lemma split_v1_2_v1_3: "boost_split (\<lambda>c. CHR '','' = c) ''v1.2,v1.3'' = [''v1.2'', ''v1.3'']"
  by simp

lemma example_vers:
  "parse_api_ver_record unspecified
     [(''api_proto'', ''http''), (''api_ver'', ''v1.2,v1.3''), (''pri'', pri_text)]
     = {(1, 2), (1, 3)}"
  by (simp add: parse_api_ver_record_def parse_txt_record_def
      parse_api_ver_value_def split_v1_2_v1_3 parse_v1_2 parse_v1_3
      del: boost_split.simps One_nat_def)

lemma example_proto:
  "parse_api_proto_record
     [(''api_proto'', ''http''), (''api_ver'', ''v1.2,v1.3''), (''pri'', pri_text)] = ''http''"
  by (simp add: parse_api_proto_record_def parse_txt_record_def parse_api_proto_value_def)

lemma example_pri_50:
  "parse_pri_record no_priority
     [(''api_proto'', ''http''), (''api_ver'', ''v1.2,v1.3''), (''pri'', ''50'')] = 50"
  by (simp add: parse_pri_record_def parse_txt_record_def parse_pri_value_def
      istringstreamed_int_def is_space_def is_digit_def digits_value_def digit_value_def
      INT_MIN_def INT_MAX_def)

lemma example_pri_150:
  "parse_pri_record no_priority
     [(''api_proto'', ''http''), (''api_ver'', ''v1.2,v1.3''), (''pri'', ''150'')] = 150"
  by (simp add: parse_pri_record_def parse_txt_record_def parse_pri_value_def
      istringstreamed_int_def is_space_def is_digit_def digits_value_def digit_value_def
      INT_MIN_def INT_MAX_def)

lemma make_v1_3: "make_api_version (1, 3) = ''v1.3''"
  by (simp add: make_api_version_def digits.simps digit_char_def)

lemma example_highest:
  "Max ({(1, 2), (1, 3)} \<inter> {(1, 2), (1, 3 :: nat)}) = (1 :: nat, 3)"
  by simp

lemma example_common: "{(1, 2), (1, 3)} \<inter> {(1, 2), (1, 3 :: nat)} \<noteq> ({} :: (nat \<times> nat) set)"
  by simp

lemma example_not_rejected_50:
  "\<not> rejected no_priority unspecified service {(1, 2), (1, 3)} (0, 99) (example_candidate ''50'')"
  unfolding rejected_def Let_def example_records example_vers example_proto example_pri_50
  using example_common by (simp add: service_protocols_http_def del: One_nat_def)

lemma example_rejected_150:
  "rejected no_priority unspecified service {(1, 2), (1, 3)} (0, 99) (example_candidate ''150'')
     \<longleftrightarrow> service \<noteq> service_types_node"
  unfolding rejected_def Let_def example_records example_vers example_proto example_pri_150
  using example_common by (simp add: service_protocols_http_def del: One_nat_def)

lemma example_uris:
  "candidate_uris no_priority unspecified service {(1, 2), (1, 3)} (example_candidate pri_text)
     = [(((1, 3), parse_pri_record no_priority
           [(''api_proto'', ''http''), (''api_ver'', ''v1.2,v1.3''), (''pri'', pri_text)]),
         \<lparr>uri_scheme = ''http'', uri_host = ''10.0.0.1'', uri_port = 3210,
          uri_path = ''/x-nmos/'' @ service_api service @ ''/v1.3''\<rparr>)]"
  unfolding candidate_uris_def Let_def example_records example_vers example_highest make_v1_3
  by (simp add: example_candidate_def del: One_nat_def)

lemma filter_concat_filter:
  "filter P (concat (map (filter P) xss)) = filter P (concat xss)"
  by (induction xss) simp_all

lemma collect_results_eq:
  assumes "finite api_ver" and "finite unspecified"
  shows "collect_results no_priority unspecified service api_ver priorities delivered
       = concat (map (candidate_uris no_priority unspecified service api_ver)
            (filter (\<lambda>r. \<not> rejected no_priority unspecified service api_ver priorities r)
               (concat delivered)))"
  unfolding collect_results_def
  using collect_results_concat [OF assms, of no_priority service priorities "[]" "concat delivered"]
  by simp

lemma stable_sort_single: "stable_sort before [x] = [x]"
  by (simp add: stable_sort_def)

lemma example_collect:
  assumes "finite unspecified"
    and "\<not> rejected no_priority unspecified service {(1, 2), (1, 3)} (0, 99)
            (example_candidate pri_text)"
  shows "collect_results no_priority unspecified service {(1, 2), (1, 3)} (0, 99)
           [[example_candidate pri_text]]
       = candidate_uris no_priority unspecified service {(1, 2), (1, 3)}
           (example_candidate pri_text)"
proof -
  have f: "finite {(1, 2), (1, 3 :: nat)}" by simp
  show ?thesis
    unfolding collect_results_eq [OF f assms(1)]
    using assms(2) by (simp del: One_nat_def)
qed

lemma example_resolve:
  assumes "finite unspecified"
    and "\<not> rejected no_priority unspecified service {(1, 2), (1, 3)} (0, 99)
            (example_candidate pri_text)"
  shows "resolve_service no_priority unspecified shuffle [[example_candidate pri_text]] service
     {(1, 2), (1, 3)} (0, 99) False
     = [\<lparr>uri_scheme = ''http'', uri_host = ''10.0.0.1'', uri_port = 3210,
          uri_path = ''/x-nmos/'' @ service_api service @ ''/v1.3''\<rparr>]"
  unfolding resolve_service_def rank_results_def example_collect [OF assms] example_uris
  by (simp add: stable_sort_single)

lemma service_api_values:
  "service_api service_types_node = ''node''"
  "service_api service_types_query = ''query''"
  "service_api service_types_registration = ''registration''"
  "service_api ''_nmos-register._tcp'' = []"
  by (simp_all add: service_api_def service_types_node_def service_types_query_def
      service_types_registration_def)

text \<open>
  C4 (as the code has it). \<open>resolve_service\<close> takes no URI from a rejected candidate:
  one whose \<open>api_proto\<close> is not \<open>http\<close>, or whose advertised versions have none in
  common with the versions the caller requires, or, for every service type but the Node
  API, whose \<open>pri\<close> is outside the band from \<open>priorities.first\<close> to
  \<open>priorities.second\<close>, bounds included. The callback leaves the results as they are
  for such a candidate, the collected results are those of the other candidates, and the
  result of \<open>resolve_service\<close> is the same as if the rejected candidates had not been
  delivered.
\<close>

theorem resolve_service_drops_rejected:
  assumes "finite api_ver" and "finite unspecified"
  shows "(rejected no_priority unspecified service api_ver priorities resolved \<longrightarrow>
            resolve_handler no_priority unspecified service api_ver priorities resolved results
              = results)
       \<and> collect_results no_priority unspecified service api_ver priorities delivered
           = concat (map (candidate_uris no_priority unspecified service api_ver)
               (filter (\<lambda>r. \<not> rejected no_priority unspecified service api_ver priorities r)
                  (concat delivered)))
       \<and> resolve_service no_priority unspecified shuffle delivered service api_ver priorities
             randomize
           = resolve_service no_priority unspecified shuffle
               (map (filter (\<lambda>r. \<not> rejected no_priority unspecified service api_ver priorities r))
                  delivered)
               service api_ver priorities randomize"
proof -
  have 1: "rejected no_priority unspecified service api_ver priorities resolved \<longrightarrow>
            resolve_handler no_priority unspecified service api_ver priorities resolved results
              = results"
    by (simp add: resolve_handler_cases [OF assms])
  note 2 = collect_results_eq [OF assms, of no_priority service priorities delivered]
  have 3: "resolve_service no_priority unspecified shuffle delivered service api_ver priorities
             randomize
           = resolve_service no_priority unspecified shuffle
               (map (filter (\<lambda>r. \<not> rejected no_priority unspecified service api_ver priorities r))
                  delivered)
               service api_ver priorities randomize"
    unfolding resolve_service_def collect_results_eq [OF assms] filter_concat_filter ..
  from 1 2 3 show ?thesis by blast
qed

theorem resolve_service_drops_rejected_witness:
  "finite {(1, 2), (1, 3 :: nat)} \<and> finite {(1, 0 :: nat)}
   \<and> rejected 100 {(1, 0)} service_types_query {(1, 2), (1, 3)} (0, 99) (example_candidate ''150'')
   \<and> resolve_handler 100 {(1, 0)} service_types_query {(1, 2), (1, 3)} (0, 99)
        (example_candidate ''150'') [] = []"
proof -
  have a: "finite {(1, 2), (1, 3 :: nat)}" and b: "finite {(1, 0 :: nat)}" by simp_all
  have n: "service_types_query \<noteq> service_types_node"
    by (simp add: service_types_query_def service_types_node_def)
  have r: "rejected 100 {(1, 0)} service_types_query {(1, 2), (1, 3)} (0, 99)
             (example_candidate ''150'')"
    unfolding example_rejected_150 by (rule n)
  from resolve_service_drops_rejected [OF a b, of 100 service_types_query "(0, 99)"
      "example_candidate ''150''" "[]"] r a b
  show ?thesis by blast
qed

theorem resolve_service_node_priority_counterexample:
  "parse_pri_record 100
     (mdns_parse_txt_records (resolved_txt_records (example_candidate ''150''))) = 150
   \<and> \<not> (0 \<le> (150 :: int) \<and> (150 :: int) \<le> 99)
   \<and> resolve_service 100 {(1, 0)} id [[example_candidate ''150'']] service_types_node
        {(1, 2), (1, 3)} (0, 99) False
      = [\<lparr>uri_scheme = ''http'', uri_host = ''10.0.0.1'', uri_port = 3210,
           uri_path = ''/x-nmos/node/v1.3''\<rparr>]"
proof -
  have 1: "parse_pri_record 100
     (mdns_parse_txt_records (resolved_txt_records (example_candidate ''150''))) = 150"
    unfolding example_records by (rule example_pri_150)
  have b: "finite {(1, 0 :: nat)}" by simp
  have r: "\<not> rejected 100 {(1, 0)} service_types_node {(1, 2), (1, 3)} (0, 99)
             (example_candidate ''150'')"
    unfolding example_rejected_150 by simp
  have 3: "resolve_service 100 {(1, 0)} id [[example_candidate ''150'']] service_types_node
        {(1, 2), (1, 3)} (0, 99) False
      = [\<lparr>uri_scheme = ''http'', uri_host = ''10.0.0.1'', uri_port = 3210,
           uri_path = ''/x-nmos/node/v1.3''\<rparr>]"
    unfolding example_resolve [OF b r] service_api_values by simp
  from 1 3 show ?thesis by simp
qed

text \<open>
  C5 (as the code has it). For a candidate that is not rejected, the callback appends one
  result for each resolved address, under the highest version common to the candidate's
  advertised versions and the caller's required versions, with the URI of scheme
  \<open>http\<close>, that address, the resolved port and the path \<open>/x-nmos/{api}/{ver}\<close>.
  In particular, with the service type \<open>_nmos-registration._tcp\<close>, which the code maps to
  the API \<open>registration\<close>, a candidate with TXT \<open>api_ver=v1.2,v1.3\<close> and \<open>pri=50\<close>
  yields one URI, ending in \<open>/x-nmos/registration/v1.3\<close>.
\<close>

theorem resolve_service_builds_uris:
  assumes "finite api_ver" and "finite unspecified"
    and "\<not> rejected no_priority unspecified service api_ver priorities resolved"
  shows "resolve_handler no_priority unspecified service api_ver priorities resolved results
           = results @ candidate_uris no_priority unspecified service api_ver resolved
       \<and> length (candidate_uris no_priority unspecified service api_ver resolved)
           = length (resolved_ip_addresses resolved)
       \<and> resolve_service 100 {(1, 0)} shuffle [[example_candidate ''50'']]
           service_types_registration {(1, 2), (1, 3)} (0, 99) False
           = [\<lparr>uri_scheme = ''http'', uri_host = ''10.0.0.1'', uri_port = 3210,
                uri_path = ''/x-nmos/registration/v1.3''\<rparr>]"
proof -
  have 1: "resolve_handler no_priority unspecified service api_ver priorities resolved results
           = results @ candidate_uris no_priority unspecified service api_ver resolved"
    using assms(3) by (simp add: resolve_handler_cases [OF assms(1,2)])
  have 2: "length (candidate_uris no_priority unspecified service api_ver resolved)
           = length (resolved_ip_addresses resolved)"
    by (simp add: candidate_uris_def Let_def)
  have b: "finite {(1, 0 :: nat)}" by simp
  have 3: "resolve_service 100 {(1, 0)} shuffle [[example_candidate ''50'']]
           service_types_registration {(1, 2), (1, 3)} (0, 99) False
           = [\<lparr>uri_scheme = ''http'', uri_host = ''10.0.0.1'', uri_port = 3210,
                uri_path = ''/x-nmos/registration/v1.3''\<rparr>]"
    unfolding example_resolve [OF b example_not_rejected_50] service_api_values by simp
  from 1 2 3 show ?thesis by blast
qed

theorem resolve_service_builds_uris_witness:
  "finite {(1, 2), (1, 3 :: nat)} \<and> finite {(1, 0 :: nat)}
   \<and> \<not> rejected 100 {(1, 0)} service_types_registration {(1, 2), (1, 3)} (0, 99)
         (example_candidate ''50'')
   \<and> resolve_handler 100 {(1, 0)} service_types_registration {(1, 2), (1, 3)} (0, 99)
        (example_candidate ''50'') []
      = [(((1, 3), 50),
          \<lparr>uri_scheme = ''http'', uri_host = ''10.0.0.1'', uri_port = 3210,
           uri_path = ''/x-nmos/registration/v1.3''\<rparr>)]"
proof -
  have a: "finite {(1, 2), (1, 3 :: nat)}" and b: "finite {(1, 0 :: nat)}" by simp_all
  note r = example_not_rejected_50 [of 100 "{(1, 0)}" service_types_registration]
  have u: "candidate_uris 100 {(1, 0)} service_types_registration {(1, 2), (1, 3)}
             (example_candidate ''50'')
         = [(((1, 3), 50),
          \<lparr>uri_scheme = ''http'', uri_host = ''10.0.0.1'', uri_port = 3210,
           uri_path = ''/x-nmos/registration/v1.3''\<rparr>)]"
    unfolding example_uris example_pri_50 service_api_values by simp
  from resolve_service_builds_uris [OF a b r, of "[]"] have
    "resolve_handler 100 {(1, 0)} service_types_registration {(1, 2), (1, 3)} (0, 99)
        (example_candidate ''50'') []
      = [] @ candidate_uris 100 {(1, 0)} service_types_registration {(1, 2), (1, 3)}
          (example_candidate ''50'')"
    by blast
  with u a b r show ?thesis by (simp del: One_nat_def)
qed

theorem resolve_service_register_counterexample:
  "resolve_service 100 {(1, 0)} id [[example_candidate ''50'']] ''_nmos-register._tcp''
     {(1, 2), (1, 3)} (0, 99) False
     = [\<lparr>uri_scheme = ''http'', uri_host = ''10.0.0.1'', uri_port = 3210,
          uri_path = ''/x-nmos//v1.3''\<rparr>]"
proof -
  have b: "finite {(1, 0 :: nat)}" by simp
  show ?thesis
    unfolding example_resolve [OF b example_not_rejected_50] service_api_values by simp
qed

section \<open>Properties of the advertisement\<close>

lemma registered_types_append:
  "registered_types (xs @ ys) = registered_types xs @ registered_types ys"
  by (induction xs rule: registered_types.induct) simp_all

lemma registered_types_addresses:
  "registered_types (map (\<lambda>a. Register_address h a d) as) = []"
  by (induction as) simp_all

text \<open>
  C6. For the registration service type (and a set of supported versions that is not
  empty), \<open>register_service\<close> always registers the instance under
  \<open>_nmos-register._tcp\<close>, and before that under \<open>_nmos-registration._tcp\<close> exactly when
  the lowest supported version is below v1.3; for every other service type it registers
  the instance under that service type only.
\<close>

theorem register_service_types:
  "(is04_versions_from_settings settings \<noteq> {} \<longrightarrow>
      map_option registered_types (register_service service_types_registration settings)
        = Some (if Min (is04_versions_from_settings settings) < v1_3
                then [''_nmos-registration._tcp'', ''_nmos-register._tcp'']
                else [''_nmos-register._tcp'']))
   \<and> (service \<noteq> service_types_registration \<longrightarrow>
      map_option registered_types (register_service service settings) = Some [service])"
  by (auto simp: register_service_def Let_def registered_types_append
      registered_types_addresses service_types_registration_def)

theorem register_service_types_witness:
  "map_option registered_types (register_service service_types_registration
      \<lparr>fields_host_name = ''host'', fields_domain = ''local.'', fields_host_address = ''10.0.0.1'',
       fields_host_addresses = None, fields_node_port = 3212, fields_query_port = 3211,
       fields_registration_port = 3210, fields_pri = 100,
       is04_versions_from_settings = {(1, 2), (1, 3)}\<rparr>)
     = Some [''_nmos-registration._tcp'', ''_nmos-register._tcp'']
   \<and> map_option registered_types (register_service service_types_registration
      \<lparr>fields_host_name = ''host'', fields_domain = ''local.'', fields_host_address = ''10.0.0.1'',
       fields_host_addresses = None, fields_node_port = 3212, fields_query_port = 3211,
       fields_registration_port = 3210, fields_pri = 100,
       is04_versions_from_settings = {(1, 3)}\<rparr>)
     = Some [''_nmos-register._tcp'']
   \<and> map_option registered_types (register_service service_types_node
      \<lparr>fields_host_name = ''host'', fields_domain = ''local.'', fields_host_address = ''10.0.0.1'',
       fields_host_addresses = None, fields_node_port = 3212, fields_query_port = 3211,
       fields_registration_port = 3210, fields_pri = 100,
       is04_versions_from_settings = {(1, 2), (1, 3)}\<rparr>)
     = Some [''_nmos-node._tcp'']"
  using register_service_types [of
      "\<lparr>fields_host_name = ''host'', fields_domain = ''local.'', fields_host_address = ''10.0.0.1'',
       fields_host_addresses = None, fields_node_port = 3212, fields_query_port = 3211,
       fields_registration_port = 3210, fields_pri = 100,
       is04_versions_from_settings = {(1, 2), (1, 3)}\<rparr>" service_types_node]
    register_service_types [of
      "\<lparr>fields_host_name = ''host'', fields_domain = ''local.'', fields_host_address = ''10.0.0.1'',
       fields_host_addresses = None, fields_node_port = 3212, fields_query_port = 3211,
       fields_registration_port = 3210, fields_pri = 100,
       is04_versions_from_settings = {(1, 3)}\<rparr>" service_types_node]
  by (simp add: v1_3_def service_types_node_def service_types_registration_def)

section \<open>Properties of event type matching\<close>

lemma match_no_wildcard:
  "last (boost_split (\<lambda>x. x = CHR ''/'') capability) \<noteq> event_types_wildcard \<Longrightarrow>
     is_matching_event_type capability event = (capability = event)"
  by (simp add: is_matching_event_type_def Let_def)

lemma split_event_types:
  "boost_split (\<lambda>x. x = CHR ''/'') ''boolean'' = [''boolean'']"
  "boost_split (\<lambda>x. x = CHR ''/'') ''number'' = [''number'']"
  "boost_split (\<lambda>x. x = CHR ''/'') ''number/temperature'' = [''number'', ''temperature'']"
  "boost_split (\<lambda>x. x = CHR ''/'') ''number/temperature/C'' = [''number'', ''temperature'', ''C'']"
  "boost_split (\<lambda>x. x = CHR ''/'') ''number/temperature/F'' = [''number'', ''temperature'', ''F'']"
  "boost_split (\<lambda>x. x = CHR ''/'') ''number/temperature/*'' = [''number'', ''temperature'', ''*'']"
  by simp_all

lemma event_type_names:
  "event_types_boolean = ''boolean''"
  "event_types_number = ''number''"
  "measurement ''number'' ''temperature'' = ''number/temperature''"
  "measurement_unit ''number'' ''temperature'' ''C'' = ''number/temperature/C''"
  "measurement_unit ''number'' ''temperature'' ''F'' = ''number/temperature/F''"
  "measurement_unit ''number'' ''temperature'' event_types_wildcard = ''number/temperature/*''"
  by (simp_all add: event_types_boolean_def event_types_number_def measurement_def
      measurement_unit_def event_types_wildcard_def)

lemma match_eval:
  "is_matching_event_type ''boolean'' e = (e = ''boolean'')"
  "is_matching_event_type ''number'' e = (e = ''number'')"
  "is_matching_event_type ''number/temperature'' e = (e = ''number/temperature'')"
  "is_matching_event_type ''number/temperature/C'' e = (e = ''number/temperature/C'')"
  "is_matching_event_type ''number/temperature/F'' e = (e = ''number/temperature/F'')"
  unfolding is_matching_event_type_def Let_def split_event_types event_types_wildcard_def
  by auto

lemma match_wildcard_eval:
  "is_matching_event_type ''number/temperature/*'' ''number/temperature/C''"
  "is_matching_event_type ''number/temperature/*'' ''number/temperature/F''"
  "\<not> is_matching_event_type ''number/temperature/*'' ''boolean''"
  "\<not> is_matching_event_type ''number/temperature/*'' ''number''"
  "\<not> is_matching_event_type ''number/temperature/*'' ''number/temperature''"
  unfolding is_matching_event_type_def Let_def split_event_types event_types_wildcard_def
  by simp_all

text \<open>
  C2. \<open>is_matching_event_type\<close> follows the enumerated rule: a subscriber type whose last
  component is not the wildcard matches the identical type only (\<open>boolean\<close> matches
  \<open>boolean\<close> and not \<open>number\<close>; \<open>number\<close> does not match \<open>number/temperature\<close>;
  \<open>number/temperature\<close> matches itself and neither \<open>number\<close> nor
  \<open>number/temperature/C\<close>), and \<open>number/temperature/*\<close> matches
  \<open>number/temperature/C\<close> and \<open>number/temperature/F\<close> but none of \<open>boolean\<close>,
  \<open>number\<close> and \<open>number/temperature\<close>. The concrete cases are the assertions of
  \<open>testIsMatchingEventType\<close>, in their order.
\<close>

theorem is_matching_event_type_rule:
  "(last (boost_split (\<lambda>x. x = CHR ''/'') capability) \<noteq> event_types_wildcard \<longrightarrow>
      is_matching_event_type capability event = (capability = event))
   \<and> is_matching_event_type event_types_boolean event_types_boolean
   \<and> \<not> is_matching_event_type event_types_boolean event_types_number
   \<and> \<not> is_matching_event_type event_types_number event_types_boolean
   \<and> is_matching_event_type event_types_number event_types_number
   \<and> \<not> is_matching_event_type event_types_number
         (measurement event_types_number ''temperature'')
   \<and> is_matching_event_type (measurement event_types_number ''temperature'')
         (measurement event_types_number ''temperature'')
   \<and> \<not> is_matching_event_type (measurement event_types_number ''temperature'')
         event_types_number
   \<and> \<not> is_matching_event_type (measurement event_types_number ''temperature'')
         (measurement_unit event_types_number ''temperature'' ''C'')
   \<and> is_matching_event_type (measurement_unit event_types_number ''temperature'' ''C'')
         (measurement_unit event_types_number ''temperature'' ''C'')
   \<and> \<not> is_matching_event_type (measurement_unit event_types_number ''temperature'' ''C'')
         (measurement_unit event_types_number ''temperature'' ''F'')
   \<and> \<not> is_matching_event_type (measurement_unit event_types_number ''temperature'' ''F'')
         (measurement_unit event_types_number ''temperature'' ''C'')
   \<and> is_matching_event_type (measurement_unit event_types_number ''temperature'' ''F'')
         (measurement_unit event_types_number ''temperature'' ''F'')
   \<and> is_matching_event_type
         (measurement_unit event_types_number ''temperature'' event_types_wildcard)
         (measurement_unit event_types_number ''temperature'' ''C'')
   \<and> is_matching_event_type
         (measurement_unit event_types_number ''temperature'' event_types_wildcard)
         (measurement_unit event_types_number ''temperature'' ''F'')
   \<and> \<not> is_matching_event_type
         (measurement_unit event_types_number ''temperature'' event_types_wildcard)
         event_types_boolean
   \<and> \<not> is_matching_event_type
         (measurement_unit event_types_number ''temperature'' event_types_wildcard)
         event_types_number
   \<and> \<not> is_matching_event_type
         (measurement_unit event_types_number ''temperature'' event_types_wildcard)
         (measurement event_types_number ''temperature'')"
proof -
  have general: "last (boost_split (\<lambda>x. x = CHR ''/'') capability) \<noteq> event_types_wildcard \<longrightarrow>
      is_matching_event_type capability event = (capability = event)"
    using match_no_wildcard [of capability \<open>event\<close>] by blast
  show ?thesis
    using general
    by (simp add: event_type_names match_eval match_wildcard_eval)
qed

theorem is_matching_event_type_rule_witness:
  "last (boost_split (\<lambda>x. x = CHR ''/'') ''number'') \<noteq> event_types_wildcard
   \<and> is_matching_event_type ''number'' ''number''
   \<and> \<not> is_matching_event_type ''number'' ''number/temperature''"
  using is_matching_event_type_rule [of "''number''" "''number''"]
    is_matching_event_type_rule [of "''number''" "''number/temperature''"]
  by (simp add: event_types_wildcard_def)

end
